theory Spec2Isabelle
  imports Main "HOL-Library.Word"
begin

unbundle bit_operations_syntax

section \<open>URL encoding helpers\<close>

text \<open>
  The helpers work on C strings. A \<open>char\<close> is modelled as an 8-bit word, so that the
  conversions between \<open>char\<close> and \<open>int\<close> of the C code (promotion, then truncation
  on assignment) are the identity on the eight bits kept. A buffer is a list of bytes;
  the loops \<open>while ( *pstr)\<close> stop at the first zero byte, and the end of the list
  stands for the terminating NUL as well.
\<close>

type_synonym byte = "8 word"

text \<open>The C string held in a buffer: the bytes before the first NUL.\<close>

definition c_str :: "byte list \<Rightarrow> byte list" where
  "c_str s = takeWhile (\<lambda>c. c \<noteq> 0) s"

text \<open>\<open>isdigit\<close>, \<open>isalnum\<close> and \<open>tolower\<close> of the C library, in the "C" locale.\<close>

definition isdigit :: "byte \<Rightarrow> bool" where
  "isdigit ch \<longleftrightarrow> 0x30 \<le> ch \<and> ch \<le> 0x39"

definition isalnum :: "byte \<Rightarrow> bool" where
  "isalnum ch \<longleftrightarrow>
     (0x30 \<le> ch \<and> ch \<le> 0x39) \<or> (0x41 \<le> ch \<and> ch \<le> 0x5A) \<or> (0x61 \<le> ch \<and> ch \<le> 0x7A)"

definition tolower :: "byte \<Rightarrow> byte" where
  "tolower ch = (if 0x41 \<le> ch \<and> ch \<le> 0x5A then ch + 0x20 else ch)"

text \<open>\<open>return isdigit(ch) ? ch - '0' : tolower(ch) - 'a' + 10;\<close>\<close>

definition from_hex :: "byte \<Rightarrow> byte" where
  "from_hex ch = (if isdigit ch then ch - 0x30 else tolower ch - 0x61 + 10)"

text \<open>\<open>static char hex[] = "0123456789ABCDEF"; return hex[code & 15];\<close>\<close>

definition hex :: "byte list" where
  "hex = [0x30, 0x31, 0x32, 0x33, 0x34, 0x35, 0x36, 0x37, 0x38, 0x39,
          0x41, 0x42, 0x43, 0x44, 0x45, 0x46]"

definition to_hex :: "byte \<Rightarrow> byte" where
  "to_hex code = hex ! unat (code AND 15)"

text \<open>
  \<open>url_encode\<close>: the result is the contents of \<open>buf\<close> before the NUL written at the
  end. \<open>*pstr >> 4\<close> shifts the promoted \<open>char\<close>; with a signed \<open>char\<close> this is an
  arithmetic shift, and the argument of \<open>to_hex\<close> is its low eight bits.
\<close>

fun url_encode :: "byte list \<Rightarrow> byte list" where
  "url_encode [] = []"
| "url_encode (c # pstr) =
     (if c = 0 then []
      else if isalnum c then c # url_encode pstr
      else 0x25 # to_hex (signed_drop_bit 4 c) # to_hex (c AND 15) # url_encode pstr)"

text \<open>
  \<open>url_decode\<close>: after a \<open>'%'\<close> the two following bytes are read only if both are
  non-zero (\<open>pstr[1] && pstr[2]\<close>, evaluated left to right); otherwise the \<open>'%'\<close> is
  dropped and the loop goes on with the next byte.
\<close>

fun url_decode :: "byte list \<Rightarrow> byte list" where
  "url_decode [] = []"
| "url_decode (c # pstr) =
     (if c = 0 then []
      else if c = 0x25 then
        (case pstr of
           p1 # p2 # rest \<Rightarrow>
             if p1 \<noteq> 0 \<and> p2 \<noteq> 0
             then (push_bit 4 (from_hex p1) OR from_hex p2) # url_decode rest
             else url_decode pstr
         | _ \<Rightarrow> url_decode pstr)
      else if c = 0x2B then 0x20 # url_decode pstr
      else c # url_decode pstr)"

text \<open>What the encoder emits for one byte, and the digits it uses.\<close>

definition encode_byte :: "byte \<Rightarrow> byte list" where
  "encode_byte c =
     (if isalnum c then [c]
      else [0x25, hex ! unat (drop_bit 4 c), hex ! unat (c AND 15)])"

definition upper_hex_digit :: "byte \<Rightarrow> bool" where
  "upper_hex_digit d \<longleftrightarrow> (0x30 \<le> d \<and> d \<le> 0x39) \<or> (0x41 \<le> d \<and> d \<le> 0x46)"

section \<open>The download manager: data\<close>

text \<open>
  \<open>bt_download_manager.c\<close> is a mediator: almost every line is a call into another
  component. The model keeps the state that the manager itself reads back (peer
  flags, pieces, queue, configuration, completed pieces, blacklist, selector state)
  and, beside it, a trace: the list, in program order, of the calls that leave the
  manager (host callbacks, selector interface, protocol actions of a peer connection,
  operations on the job queue). A property of the form "the manager calls X exactly
  once" or "does not call X" is a property of the trace.
\<close>

text \<open>A \<open>bt_peer_t*\<close> is an address into the memory of peer objects; a peer's
  connection (\<open>p->pc\<close>) is addressed through the peer that owns it. A net handle is
  an opaque token of the host; \<open>None\<close> stands for the null pointer.\<close>

type_synonym peer_ptr = nat
type_synonym nethandle = "nat option"

datatype fault = Assertion_failed | Null_dereference

text \<open>Sequencing of steps that may stop the program.\<close>

definition and_then :: "fault + 'a \<Rightarrow> ('a \<Rightarrow> fault + 'b) \<Rightarrow> fault + 'b" where
  "and_then r f = (case r of Inl e \<Rightarrow> Inl e | Inr x \<Rightarrow> f x)"

text \<open>\<open>bt_block_t\<close>. Its declaration is in a header that is not part of the sources
  at hand; the fields are signed integers, as the test \<open>b->len < 0\<close> presupposes.\<close>

record bt_block_t =
  piece_idx :: int
  offset :: int
  len :: int

subsection \<open>Pieces\<close>

datatype block_state = MISSING | REQUESTED | RECEIVED

text \<open>
  Modelled from the spec: \<open>bt_piece_t\<close> and the functions of \<open>bt_piece.c\<close>, which is
  not among the sources. A piece has an index, a length, the state of each of its
  blocks (16 KiB each, the last one possibly shorter) and the peers that contributed
  to it; \<open>sha1_ok\<close> says whether the bytes stored for the piece hash to the expected
  SHA-1.
\<close>

record bt_piece_t =
  idx :: int
  piece_len :: int
  blocks :: "block_state list"
  contributors :: "peer_ptr list"
  sha1_ok :: bool

text \<open>Modelled from the spec: a block is 16 KiB, the ceiling of a request.\<close>

definition block_size :: int where
  "block_size = 16384"

text \<open>Modelled from the spec: \<open>bt_piece_get_idx\<close> reads the index of the piece.\<close>

definition bt_piece_get_idx :: "bt_piece_t \<Rightarrow> int" where
  "bt_piece_get_idx p = idx p"

text \<open>Modelled from the spec: \<open>bt_piece_is_complete\<close>; a piece is complete when every
  block is RECEIVED and the SHA-1 matches.\<close>

definition bt_piece_is_complete :: "bt_piece_t \<Rightarrow> bool" where
  "bt_piece_is_complete p \<longleftrightarrow> list_all (\<lambda>s. s = RECEIVED) (blocks p) \<and> sha1_ok p"

text \<open>Modelled from the spec: \<open>bt_piece_is_fully_requested\<close>; a piece is fully
  requested when no block is MISSING any more.\<close>

definition bt_piece_is_fully_requested :: "bt_piece_t \<Rightarrow> bool" where
  "bt_piece_is_fully_requested p \<longleftrightarrow> MISSING \<notin> set (blocks p)"

text \<open>The position of the first MISSING block.\<close>

fun first_missing :: "block_state list \<Rightarrow> nat" where
  "first_missing [] = 0"
| "first_missing (s # ss) = (if s = MISSING then 0 else Suc (first_missing ss))"

text \<open>Modelled from the spec: \<open>bt_piece_poll_block_request\<close> returns the next MISSING
  block, marks it REQUESTED, and selects \<open>len = min(16384, piece.length - offset)\<close>.
  \<open>block_at p i\<close> is the block at position \<open>i\<close> of the piece.\<close>

definition block_at :: "bt_piece_t \<Rightarrow> nat \<Rightarrow> bt_block_t" where
  "block_at p i =
     \<lparr>piece_idx = idx p, offset = int i * block_size,
      len = min block_size (piece_len p - int i * block_size)\<rparr>"

definition bt_piece_poll_block_request :: "bt_piece_t \<Rightarrow> bt_block_t \<times> bt_piece_t" where
  "bt_piece_poll_block_request p =
     (let i = first_missing (blocks p)
      in (block_at p i, p\<lparr>blocks := (blocks p)[i := REQUESTED]\<rparr>))"

text \<open>Modelled from the spec: \<open>bt_piece_giveback_block\<close> flips REQUESTED back to
  MISSING. A block that does not lie in the piece, or is not REQUESTED, changes nothing.\<close>

definition bt_piece_giveback_block :: "bt_piece_t \<Rightarrow> bt_block_t \<Rightarrow> bt_piece_t" where
  "bt_piece_giveback_block p b =
     (let i = nat (offset b div block_size)
      in if 0 \<le> offset b \<and> i < length (blocks p) \<and> blocks p ! i = REQUESTED
         then p\<lparr>blocks := (blocks p)[i := MISSING]\<rparr> else p)"

text \<open>Modelled from the spec: the contributing peers are a set; \<open>bt_piece_get_peers\<close>
  enumerates it and \<open>bt_piece_num_peers\<close> counts it.\<close>

definition bt_piece_get_peers :: "bt_piece_t \<Rightarrow> peer_ptr list" where
  "bt_piece_get_peers p = remdups (contributors p)"

definition bt_piece_num_peers :: "bt_piece_t \<Rightarrow> int" where
  "bt_piece_num_peers p = int (length (bt_piece_get_peers p))"

text \<open>Modelled from the spec: \<open>bt_piece_drop_download_progress\<close> resets the block
  state of the piece: every block is MISSING again.\<close>

definition bt_piece_drop_download_progress :: "bt_piece_t \<Rightarrow> bt_piece_t" where
  "bt_piece_drop_download_progress p = p\<lparr>blocks := map (\<lambda>_. MISSING) (blocks p)\<rparr>"

subsection \<open>Blacklist\<close>

datatype suspicion = SUSPECTED | BANNED

text \<open>
  Modelled from the spec: the blacklist of \<open>bt_blacklist.c\<close> (not among the sources)
  holds entries (piece, peer) with a state. \<open>add_peer\<close> bans outright;
  \<open>add_peer_as_potentially_blacklisted\<close> adds a SUSPECTED edge and promotes the peer
  to BANNED once it is suspected for two or more distinct pieces. A piece is named by
  the index under which the piece database holds it.
\<close>

type_synonym bt_blacklist_t = "(int \<times> peer_ptr \<times> suspicion) list"

definition bt_blacklist_add_peer :: "bt_blacklist_t \<Rightarrow> int \<Rightarrow> peer_ptr \<Rightarrow> bt_blacklist_t" where
  "bt_blacklist_add_peer bl piece peer = bl @ [(piece, peer, BANNED)]"

definition suspected_pieces :: "bt_blacklist_t \<Rightarrow> peer_ptr \<Rightarrow> int list" where
  "suspected_pieces bl peer =
     remdups (map fst (filter (\<lambda>(i, q, s). q = peer \<and> s = SUSPECTED) bl))"

definition bt_blacklist_add_peer_as_potentially_blacklisted ::
    "bt_blacklist_t \<Rightarrow> int \<Rightarrow> peer_ptr \<Rightarrow> bt_blacklist_t" where
  "bt_blacklist_add_peer_as_potentially_blacklisted bl piece peer =
     (let bl' = bl @ [(piece, peer, SUSPECTED)]
      in if 2 \<le> length (suspected_pieces bl' peer)
         then map (\<lambda>(i, q, s). if q = peer then (i, q, BANNED) else (i, q, s)) bl'
         else bl')"

definition bt_blacklist_is_banned :: "bt_blacklist_t \<Rightarrow> peer_ptr \<Rightarrow> bool" where
  "bt_blacklist_is_banned bl peer \<longleftrightarrow> list_ex (\<lambda>(i, q, s). q = peer \<and> s = BANNED) bl"

subsection \<open>Peer connections and peers\<close>

datatype pc_flag =
    PC_HANDSHAKE_SENT | PC_HANDSHAKE_RECEIVED
  | PC_IM_CHOKING | PC_IM_INTERESTED | PC_PEER_CHOKING | PC_PEER_INTERESTED
  | PC_FAILED_CONNECTION

text \<open>
  Modelled from the spec: the state of a peer connection of \<open>pwp_connection.c\<close> (a
  library that is not among the sources), as far as the manager reads it: the flag
  set and the two rates.
\<close>

record pwp_conn_t =
  pc_flags :: "pc_flag set"
  pc_drate :: int
  pc_urate :: int

text \<open>Modelled from the spec: \<open>pwp_conn_new\<close>; a new connection is choking and
  choked.\<close>

definition pwp_conn_new :: pwp_conn_t where
  "pwp_conn_new = \<lparr>pc_flags = {PC_IM_CHOKING, PC_PEER_CHOKING}, pc_drate = 0, pc_urate = 0\<rparr>"

text \<open>Modelled from the spec: \<open>pwp_conn_flag_is_set\<close> tests a flag of the set.\<close>

definition pwp_conn_flag_is_set :: "pwp_conn_t \<Rightarrow> pc_flag \<Rightarrow> bool" where
  "pwp_conn_flag_is_set c f \<longleftrightarrow> f \<in> pc_flags c"

text \<open>Modelled from the spec: \<open>pwp_conn_set_state\<close> sets the flag.\<close>

definition pwp_conn_set_state :: "pwp_conn_t \<Rightarrow> pc_flag \<Rightarrow> pwp_conn_t" where
  "pwp_conn_set_state c f = c\<lparr>pc_flags := insert f (pc_flags c)\<rparr>"



definition pwp_conn_peer_is_interested :: "pwp_conn_t \<Rightarrow> bool" where
  "pwp_conn_peer_is_interested c \<longleftrightarrow> PC_PEER_INTERESTED \<in> pc_flags c"

text \<open>\<open>p->mh\<close> holds a handshaker until the handshake is done and a message handler
  afterwards; both buffer the bytes of an incomplete handshake or message.\<close>

datatype handler = No_handler | Handshaker "byte list" | Msghandler "byte list"

record bt_peer_t =
  peer_id :: string
  ip :: string
  port :: int
  nethandle :: nethandle
  pc :: pwp_conn_t
  mh :: handler

subsection \<open>Messages, jobs, events\<close>

text \<open>The peer-wire messages the manager causes to be sent.\<close>

datatype pwp_msg = BITFIELD "bool list"

datatype bt_job_t = BT_JOB_NONE | BT_JOB_POLLBLOCK peer_ptr

datatype log_arg = Arg_int int | Arg_str string

datatype event =
    Cb_log string string "log_arg list"
  | Cb_peer_send nethandle pwp_msg
  | Cb_peer_connect string int
  | Exclusive_enter
  | Exclusive_leave
  | Llqueue_offer bt_job_t
  | Llqueue_poll
  | Printf string
  | Ips_add_peer peer_ptr
  | Ips_remove_peer peer_ptr
  | Ips_have_piece int
  | Ips_peer_have_piece peer_ptr int
  | Ips_peer_giveback_piece "peer_ptr option" int
  | Ips_poll_piece peer_ptr
  | Pwp_conn_periodic peer_ptr
  | Pwp_conn_offer_block peer_ptr bt_block_t
  | Pwp_conn_send_have peer_ptr int
  | Pwp_conn_choke_peer peer_ptr
  | Pwp_conn_unchoke_peer peer_ptr

text \<open>The events that offer a block to a connection, and those that poll the
  selector.\<close>

fun is_offer :: "event \<Rightarrow> bool" where
  "is_offer (Pwp_conn_offer_block p b) = True"
| "is_offer _ = False"


subsection \<open>The manager\<close>

text \<open>\<open>bt_pieceselector_i\<close>: the selector is a table of function pointers over a
  state the manager never looks into.\<close>

record 'sel bt_pieceselector_i =
  add_peer :: "'sel \<Rightarrow> peer_ptr \<Rightarrow> 'sel"
  remove_peer :: "'sel \<Rightarrow> peer_ptr \<Rightarrow> 'sel"
  have_piece :: "'sel \<Rightarrow> int \<Rightarrow> 'sel"
  peer_have_piece :: "'sel \<Rightarrow> peer_ptr \<Rightarrow> int \<Rightarrow> 'sel"
  peer_giveback_piece :: "'sel \<Rightarrow> peer_ptr option \<Rightarrow> int \<Rightarrow> 'sel"
  poll_piece :: "'sel \<Rightarrow> peer_ptr \<Rightarrow> int \<times> 'sel"

text \<open>\<open>bt_dm_cbs_t\<close>: the callbacks of the host. A callback that is not set is
  \<open>None\<close>; one that is set is given by the value it returns. \<open>peer_connect\<close> returns
  its result and the net handle it stores through its out parameter.\<close>

record bt_dm_cbs_t =
  peer_connect :: "(string \<Rightarrow> int \<Rightarrow> int \<times> nethandle) option"
  peer_send :: "(nethandle \<Rightarrow> pwp_msg \<Rightarrow> int) option"
  cb_log :: bool

text \<open>\<open>bt_dm_private_t\<close>. \<open>peer_mem\<close> is the memory of peer objects and \<open>peer_next\<close> the
  next address to allocate; \<open>pm\<close> lists the peers registered with the peer manager;
  \<open>pdb\<close> is the piece database seen through \<open>ipdb.get_piece\<close>; \<open>lchoke\<close> lists the
  connections registered with the leeching choker.\<close>

record 'sel bt_dm_private_t =
  pdb :: "int \<Rightarrow> bt_piece_t option"
  cb :: bt_dm_cbs_t
  jobs :: "bt_job_t list"
  cfg :: "string \<Rightarrow> string option"
  peer_mem :: "peer_ptr \<Rightarrow> bt_peer_t"
  peer_next :: peer_ptr
  pm :: "peer_ptr list"
  blacklist :: bt_blacklist_t
  lchoke :: "peer_ptr list"
  ips :: "'sel bt_pieceselector_i"
  pselector :: "'sel option"
  am_seeding :: int
  pieces_completed :: "int set"
  trace :: "event list"



section \<open>The download manager: operations\<close>

subsection \<open>Library functions and small containers\<close>

definition emit :: "'sel bt_dm_private_t \<Rightarrow> event \<Rightarrow> 'sel bt_dm_private_t" where
  "emit me e = me\<lparr>trace := trace me @ [e]\<rparr>"

text \<open>\<open>strncmp\<close> on the characters before the terminating NUL; characters compare as
  unsigned bytes. \<open>size_t_of\<close> is the conversion of an \<open>int\<close> length to \<open>size_t\<close>.\<close>

fun strncmp :: "string \<Rightarrow> string \<Rightarrow> nat \<Rightarrow> int" where
  "strncmp s1 s2 n =
     (if n = 0 then 0
      else case s1 of
        [] \<Rightarrow> (case s2 of [] \<Rightarrow> 0 | b # bs \<Rightarrow> - int (of_char b))
      | a # as \<Rightarrow>
          (case s2 of
             [] \<Rightarrow> int (of_char a)
           | b # bs \<Rightarrow> if a = b then strncmp as bs (n - 1)
                       else int (of_char a) - int (of_char b)))"

declare strncmp.simps [simp del]

definition size_t_of :: "int \<Rightarrow> nat" where
  "size_t_of n = nat (n mod 2 ^ 64)"

text \<open>\<open>atoi\<close>: blanks, an optional sign, then decimal digits up to the first other
  character. (A value that does not fit an \<open>int\<close> is undefined in C and is not
  wrapped here.)\<close>

definition isspace :: "char \<Rightarrow> bool" where
  "isspace c \<longleftrightarrow> (of_char c :: nat) \<in> {0x20, 0x09, 0x0A, 0x0B, 0x0C, 0x0D}"

fun atoi_digits :: "int \<Rightarrow> string \<Rightarrow> int" where
  "atoi_digits acc [] = acc"
| "atoi_digits acc (c # cs) =
     (if 0x30 \<le> (of_char c :: nat) \<and> (of_char c :: nat) \<le> 0x39
      then atoi_digits (10 * acc + (int (of_char c) - 0x30)) cs
      else acc)"

definition atoi :: "string \<Rightarrow> int" where
  "atoi s =
     (case dropWhile isspace s of
        [] \<Rightarrow> 0
      | c # cs \<Rightarrow>
          if c = CHR ''-'' then - atoi_digits 0 cs
          else if c = CHR ''+'' then atoi_digits 0 cs
          else atoi_digits 0 (c # cs))"

text \<open>Modelled from the spec: the configuration (\<open>config.c\<close> is not among the
  sources) is a table of strings by key. \<open>config_get\<close> is the lookup \<open>cfg me key\<close>
  itself (\<open>None\<close> is its null result). \<open>config_get_int\<close> reads the value as a number; a
  key that was never set reads as 0 (\<open>bt_dm_new\<close> gives every key that is read here a
  default).\<close>

definition config_get_int :: "(string \<Rightarrow> string option) \<Rightarrow> string \<Rightarrow> int" where
  "config_get_int c key = (case c key of None \<Rightarrow> 0 | Some v \<Rightarrow> atoi v)"

text \<open>The defaults that \<open>bt_dm_new\<close> writes into a fresh configuration.\<close>

definition default_cfg :: "string \<Rightarrow> string option" where
  "default_cfg = map_of
     [(''default'', ''0''),
      (''infohash'', ''00000000000000000000''),
      (''my_ip'', ''127.0.0.1''),
      (''pwp_listen_port'', ''6881''),
      (''max_peer_connections'', ''32''),
      (''max_active_peers'', ''32''),
      (''max_pending_requests'', ''10''),
      (''npieces'', ''0''),
      (''piece_length'', ''0''),
      (''download_path'', ''.''),
      (''max_cache_mem_bytes'', ''1000000''),
      (''shutdown_when_complete'', ''0'')]"

text \<open>Modelled from the spec: the sparse counter (\<open>sparse_counter.c\<close> is not among
  the sources) holds the piece indices that are complete;
  \<open>sc_mark_complete(sc, offset, len)\<close> adds \<open>len\<close> indices from \<open>offset\<close> on.\<close>

definition sc_mark_complete :: "int set \<Rightarrow> int \<Rightarrow> int \<Rightarrow> int set" where
  "sc_mark_complete sc off n = sc \<union> {off ..< off + n}"

text \<open>\<open>__FUNC_log\<close> and \<open>__log\<close> (here \<open>log_msg\<close>): a line is the client's peer id, a
  comma, and a format with its arguments; nothing is written when the host gave no
  \<open>log\<close> callback.\<close>

definition FUNC_log :: "'sel bt_dm_private_t \<Rightarrow> string \<Rightarrow> log_arg list \<Rightarrow> 'sel bt_dm_private_t" where
  "FUNC_log me fmt args =
     (if \<not> cb_log (cb me) then me
      else emit me (Cb_log (case cfg me ''my_peerid'' of None \<Rightarrow> ''(null)'' | Some s \<Rightarrow> s) fmt args))"

definition log_msg :: "'sel bt_dm_private_t \<Rightarrow> string \<Rightarrow> log_arg list \<Rightarrow> 'sel bt_dm_private_t" where
  "log_msg me fmt args = (if \<not> cb_log (cb me) then me else FUNC_log me fmt args)"

subsection \<open>Peer manager\<close>

text \<open>
  Modelled from the spec: the peer manager of \<open>bt_peermanager.c\<close> (not among the
  sources) is the set of registered peers, indexed by net handle and by (ip, port);
  it refuses a peer whose (ip, port) is registered already.
\<close>

definition bt_peermanager_nethandle_to_peer ::
    "'sel bt_dm_private_t \<Rightarrow> nethandle \<Rightarrow> peer_ptr option" where
  "bt_peermanager_nethandle_to_peer me h =
     find (\<lambda>p. nethandle (peer_mem me p) = h) (pm me)"

definition bt_peermanager_add_peer ::
    "'sel bt_dm_private_t \<Rightarrow> string \<Rightarrow> int \<Rightarrow> string \<Rightarrow> int \<Rightarrow> int
      \<Rightarrow> peer_ptr option \<times> 'sel bt_dm_private_t" where
  "bt_peermanager_add_peer me pid pid_len ip_s ip_len port_n =
     (let ip_c = take (size_t_of ip_len) ip_s in
      if list_ex (\<lambda>p. ip (peer_mem me p) = ip_c \<and> port (peer_mem me p) = port_n) (pm me)
      then (None, me)
      else
        (Some (peer_next me),
         me\<lparr>peer_mem := (peer_mem me)(peer_next me :=
               \<lparr>peer_id = take (size_t_of pid_len) pid, ip = ip_c, port = port_n,
                nethandle = None, pc = pwp_conn_new, mh = No_handler\<rparr>),
            peer_next := Suc (peer_next me),
            pm := pm me @ [peer_next me]\<rparr>))"

definition bt_peermanager_remove_peer ::
    "'sel bt_dm_private_t \<Rightarrow> peer_ptr \<Rightarrow> int \<times> 'sel bt_dm_private_t" where
  "bt_peermanager_remove_peer me p =
     (if p \<in> set (pm me) then (1, me\<lparr>pm := removeAll p (pm me)\<rparr>) else (0, me))"


text \<open>\<open>bt_peermanager_forall(pm, me, udata, visitor)\<close> calls the visitor on every
  registered peer; the state the visitor works on is threaded through.\<close>

definition bt_peermanager_forall ::
    "'sel bt_dm_private_t \<Rightarrow> ('a \<Rightarrow> peer_ptr \<Rightarrow> 'a) \<Rightarrow> 'a \<Rightarrow> 'a" where
  "bt_peermanager_forall me visitor s = foldl visitor s (pm me)"

subsection \<open>Calls through the selector interface\<close>

text \<open>Each call \<open>me->ips.f(me->pselector, ...)\<close> updates the selector state and is
  recorded. The selector implementations dereference their state, so a call with a
  null \<open>pselector\<close> stops the program.\<close>

definition call_have_piece :: "'sel bt_dm_private_t \<Rightarrow> int \<Rightarrow> fault + 'sel bt_dm_private_t" where
  "call_have_piece me i =
     (case pselector me of
        None \<Rightarrow> Inl Null_dereference
      | Some s \<Rightarrow> Inr (emit (me\<lparr>pselector := Some (have_piece (ips me) s i)\<rparr>) (Ips_have_piece i)))"

definition call_peer_giveback_piece ::
    "'sel bt_dm_private_t \<Rightarrow> peer_ptr option \<Rightarrow> int \<Rightarrow> fault + 'sel bt_dm_private_t" where
  "call_peer_giveback_piece me p i =
     (case pselector me of
        None \<Rightarrow> Inl Null_dereference
      | Some s \<Rightarrow>
          Inr (emit (me\<lparr>pselector := Some (peer_giveback_piece (ips me) s p i)\<rparr>)
                 (Ips_peer_giveback_piece p i)))"

definition call_peer_have_piece ::
    "'sel bt_dm_private_t \<Rightarrow> peer_ptr \<Rightarrow> int \<Rightarrow> fault + 'sel bt_dm_private_t" where
  "call_peer_have_piece me p i =
     (case pselector me of
        None \<Rightarrow> Inl Null_dereference
      | Some s \<Rightarrow>
          Inr (emit (me\<lparr>pselector := Some (peer_have_piece (ips me) s p i)\<rparr>)
                 (Ips_peer_have_piece p i)))"

definition call_remove_peer :: "'sel bt_dm_private_t \<Rightarrow> peer_ptr \<Rightarrow> fault + 'sel bt_dm_private_t" where
  "call_remove_peer me p =
     (case pselector me of
        None \<Rightarrow> Inl Null_dereference
      | Some s \<Rightarrow> Inr (emit (me\<lparr>pselector := Some (remove_peer (ips me) s p)\<rparr>) (Ips_remove_peer p)))"

definition call_poll_piece ::
    "'sel bt_dm_private_t \<Rightarrow> peer_ptr \<Rightarrow> fault + (int \<times> 'sel bt_dm_private_t)" where
  "call_poll_piece me p =
     (case pselector me of
        None \<Rightarrow> Inl Null_dereference
      | Some s \<Rightarrow>
          Inr (fst (poll_piece (ips me) s p),
               emit (me\<lparr>pselector := Some (snd (poll_piece (ips me) s p))\<rparr>) (Ips_poll_piece p)))"

subsection \<open>Actions of a peer connection\<close>


definition pwp_conn_offer_block ::
    "'sel bt_dm_private_t \<Rightarrow> peer_ptr \<Rightarrow> bt_block_t \<Rightarrow> 'sel bt_dm_private_t" where
  "pwp_conn_offer_block me p blk = emit me (Pwp_conn_offer_block p blk)"

definition pwp_conn_send_have :: "'sel bt_dm_private_t \<Rightarrow> peer_ptr \<Rightarrow> int \<Rightarrow> 'sel bt_dm_private_t" where
  "pwp_conn_send_have me p i = emit me (Pwp_conn_send_have p i)"

definition pwp_conn_choke_peer :: "'sel bt_dm_private_t \<Rightarrow> peer_ptr \<Rightarrow> 'sel bt_dm_private_t" where
  "pwp_conn_choke_peer me p = emit me (Pwp_conn_choke_peer p)"

definition pwp_conn_unchoke_peer :: "'sel bt_dm_private_t \<Rightarrow> peer_ptr \<Rightarrow> 'sel bt_dm_private_t" where
  "pwp_conn_unchoke_peer me p = emit me (Pwp_conn_unchoke_peer p)"

subsection \<open>The functions of \<open>bt_download_manager.c\<close>\<close>



text \<open>\<open>__FUNC_peerconn_send_to_peer\<close>: asserts that the host gave \<open>peer_send\<close> and
  passes the data on with the peer's net handle.\<close>

definition FUNC_peerconn_send_to_peer ::
    "'sel bt_dm_private_t \<Rightarrow> peer_ptr \<Rightarrow> pwp_msg \<Rightarrow> fault + (int \<times> 'sel bt_dm_private_t)" where
  "FUNC_peerconn_send_to_peer me peer data =
     (case peer_send (cb me) of
        None \<Rightarrow> Inl Assertion_failed
      | Some send \<Rightarrow>
          Inr (send (nethandle (peer_mem me peer)) data,
               emit me (Cb_peer_send (nethandle (peer_mem me peer)) data)))"

text \<open>Modelled from the spec: \<open>pwp_send_bitfield\<close> (peer-wire library) sends our
  BITFIELD, one bit per piece, set where the sparse counter has the piece complete,
  through the send function it is given, and returns that function's result.\<close>

definition pwp_send_bitfield ::
    "int \<Rightarrow> int set \<Rightarrow> 'sel bt_dm_private_t \<Rightarrow> peer_ptr
      \<Rightarrow> fault + (int \<times> 'sel bt_dm_private_t)" where
  "pwp_send_bitfield n sc me peer =
     FUNC_peerconn_send_to_peer me peer (BITFIELD (map (\<lambda>i. int i \<in> sc) [0 ..< nat n]))"

text \<open>\<open>bt_dm_remove_peer\<close>.\<close>

definition bt_dm_remove_peer ::
    "'sel bt_dm_private_t \<Rightarrow> peer_ptr \<Rightarrow> fault + (int \<times> 'sel bt_dm_private_t)" where
  "bt_dm_remove_peer me peer =
     (case bt_peermanager_remove_peer me peer of
        (r, me1) \<Rightarrow>
          if r = 0 then Inr (0, log_msg me1 ''ERROR,couldn't remove peer'' [])
          else and_then (call_remove_peer me1 peer) (\<lambda>me2. Inr (1, me2)))"

text \<open>
  \<open>bt_dm_dispatch_from_buffer\<close>. The handshaker and the message handler belong to the
  peer-wire library and are parameters: \<open>hs_dispatch\<close> takes the bytes the handshaker
  has buffered and the input and returns its result, the new buffer and the input
  left over; \<open>mh_dispatch\<close> runs the message handler on the input, with whatever the
  connection then does to the manager, and returns its result.
  \<open>handshake_done\<close> is the body of \<open>case 1\<close> of the first switch, \<open>msghandler_phase\<close>
  the second switch.
\<close>

definition handshake_done :: "'sel bt_dm_private_t \<Rightarrow> peer_ptr \<Rightarrow> fault + 'sel bt_dm_private_t" where
  "handshake_done me peer =
     (let me1 = me\<lparr>peer_mem := (peer_mem me)(peer := (peer_mem me peer)
                   \<lparr>mh := Msghandler [],
                    pc := pwp_conn_set_state (pc (peer_mem me peer)) PC_HANDSHAKE_RECEIVED\<rparr>)\<rparr>;
          me2 = log_msg me1 ''send,bitfield'' []
      in and_then
           (pwp_send_bitfield (config_get_int (cfg me2) ''npieces'') (pieces_completed me2) me2 peer)
           (\<lambda>(r, me3).
              if r = 0 then and_then (bt_dm_remove_peer me3 peer) (\<lambda>(_, me4). Inr me4)
              else Inr me3))"

definition msghandler_phase ::
    "('sel bt_dm_private_t \<Rightarrow> peer_ptr \<Rightarrow> byte list \<Rightarrow> int \<times> 'sel bt_dm_private_t)
      \<Rightarrow> 'sel bt_dm_private_t \<Rightarrow> peer_ptr \<Rightarrow> byte list
      \<Rightarrow> fault + (int \<times> 'sel bt_dm_private_t)" where
  "msghandler_phase mh_dispatch me peer buf =
     (case mh (peer_mem me peer) of
        Msghandler _ \<Rightarrow>
          (case mh_dispatch me peer buf of
             (r, me1) \<Rightarrow>
               if r = 0 then
                 and_then
                   (bt_dm_remove_peer
                      (log_msg me1 ''disconnecting,%s'' [Arg_str ''bad msg detected by PWP handler''])
                      peer)
                   (\<lambda>(_, me2). Inr (1, me2))
               else Inr (1, me1))
      | _ \<Rightarrow> Inl Null_dereference)"

definition bt_dm_dispatch_from_buffer ::
    "(byte list \<Rightarrow> byte list \<Rightarrow> int \<times> byte list \<times> byte list)
      \<Rightarrow> ('sel bt_dm_private_t \<Rightarrow> peer_ptr \<Rightarrow> byte list \<Rightarrow> int \<times> 'sel bt_dm_private_t)
      \<Rightarrow> 'sel bt_dm_private_t \<Rightarrow> nethandle \<Rightarrow> byte list
      \<Rightarrow> fault + (int \<times> 'sel bt_dm_private_t)" where
  "bt_dm_dispatch_from_buffer hs_dispatch mh_dispatch me peer_nethandle buf =
     (case bt_peermanager_nethandle_to_peer me peer_nethandle of
        None \<Rightarrow> Inr (0, me)
      | Some peer \<Rightarrow>
          if \<not> pwp_conn_flag_is_set (pc (peer_mem me peer)) PC_HANDSHAKE_RECEIVED then
            (case mh (peer_mem me peer) of
               Handshaker hs \<Rightarrow>
                 (case hs_dispatch hs buf of
                    (r, hs1, rest) \<Rightarrow>
                      if r = 1 then
                        and_then (handshake_done me peer)
                          (\<lambda>me1. msghandler_phase mh_dispatch me1 peer rest)
                      else
                        Inr (0, me\<lparr>peer_mem := (peer_mem me)(peer :=
                                      (peer_mem me peer)\<lparr>mh := Handshaker hs1\<rparr>)\<rparr>))
             | _ \<Rightarrow> Inl Null_dereference)
          else msghandler_phase mh_dispatch me peer buf)"

text \<open>The choker-peer interface \<open>iface_choker_peer\<close>. \<open>__get_drate\<close> and \<open>__get_urate\<close>
  take \<open>const\<close> pointers and return a number; the other three take the manager and
  the connection and may change them.\<close>

definition get_drate :: "'sel bt_dm_private_t \<Rightarrow> peer_ptr \<Rightarrow> int" where
  "get_drate bto pc_ptr = 0"

definition get_urate :: "'sel bt_dm_private_t \<Rightarrow> peer_ptr \<Rightarrow> int" where
  "get_urate bto pc_ptr = 0"

definition get_is_interested :: "'sel bt_dm_private_t \<Rightarrow> peer_ptr \<Rightarrow> bool \<times> 'sel bt_dm_private_t" where
  "get_is_interested bto pc_ptr = (pwp_conn_peer_is_interested (pc (peer_mem bto pc_ptr)), bto)"

definition choke_peer :: "'sel bt_dm_private_t \<Rightarrow> peer_ptr \<Rightarrow> 'sel bt_dm_private_t" where
  "choke_peer bto pc_ptr = pwp_conn_choke_peer bto pc_ptr"

definition unchoke_peer :: "'sel bt_dm_private_t \<Rightarrow> peer_ptr \<Rightarrow> 'sel bt_dm_private_t" where
  "unchoke_peer bto pc_ptr = pwp_conn_unchoke_peer bto pc_ptr"





text \<open>\<open>__dispatch_job\<close>. \<open>offer_loop\<close> is the inner loop
  \<open>while (!bt_piece_is_fully_requested(pce))\<close> on the piece held under index \<open>k\<close>; it
  ends because every round turns one MISSING block into a REQUESTED one. \<open>poll_loop\<close>
  is the outer \<open>while (1)\<close>: whether it ends is up to the selector, so it takes fuel,
  and \<open>None\<close> means that the fuel did not suffice.\<close>

function offer_loop ::
    "'sel bt_dm_private_t \<Rightarrow> int \<Rightarrow> peer_ptr \<Rightarrow> fault + 'sel bt_dm_private_t" where
  "offer_loop me k peer =
     (case pdb me k of
        None \<Rightarrow> Inl Null_dereference
      | Some pce \<Rightarrow>
          if bt_piece_is_fully_requested pce then Inr me
          else
            offer_loop
              (pwp_conn_offer_block
                 (me\<lparr>pdb := (pdb me)(k \<mapsto> snd (bt_piece_poll_block_request pce))\<rparr>)
                 peer (fst (bt_piece_poll_block_request pce)))
              k peer)"
  by pat_completeness auto
termination
proof (relation "measure (\<lambda>(me, k, peer).
    case pdb me k of None \<Rightarrow> 0 | Some pce \<Rightarrow> length (filter (\<lambda>s. s = MISSING) (blocks pce)))")
  show "wf (measure (\<lambda>(me :: 'sel bt_dm_private_t, k, peer :: peer_ptr).
    case pdb me k of None \<Rightarrow> 0 | Some pce \<Rightarrow> length (filter (\<lambda>s. s = MISSING) (blocks pce))))"
    by simp
next
  fix me :: "'sel bt_dm_private_t" and k :: int and peer :: peer_ptr and pce :: bt_piece_t
  assume pce: "pdb me k = Some pce" and nfr: "\<not> bt_piece_is_fully_requested pce"
  have step: "MISSING \<in> set ss \<Longrightarrow>
      length (filter (\<lambda>s. s = MISSING) (ss[first_missing ss := REQUESTED]))
        < length (filter (\<lambda>s. s = MISSING) ss)" for ss
    by (induction ss) auto
  from nfr have "MISSING \<in> set (blocks pce)"
    by (simp add: bt_piece_is_fully_requested_def)
  from step [OF this]
  show "((pwp_conn_offer_block
            (me\<lparr>pdb := (pdb me)(k \<mapsto> snd (bt_piece_poll_block_request pce))\<rparr>)
            peer (fst (bt_piece_poll_block_request pce)), k, peer),
          (me, k, peer))
        \<in> measure (\<lambda>(me, k, peer).
            case pdb me k of None \<Rightarrow> 0 | Some pce \<Rightarrow> length (filter (\<lambda>s. s = MISSING) (blocks pce)))"
    using pce
    by (simp add: pwp_conn_offer_block_def emit_def bt_piece_poll_block_request_def Let_def)
qed

declare offer_loop.simps [simp del]

fun poll_loop ::
    "nat \<Rightarrow> 'sel bt_dm_private_t \<Rightarrow> peer_ptr \<Rightarrow> (fault + 'sel bt_dm_private_t) option" where
  "poll_loop 0 me peer = None"
| "poll_loop (Suc fuel) me peer =
     (case call_poll_piece me peer of
        Inl e \<Rightarrow> Some (Inl e)
      | Inr (p_idx, me1) \<Rightarrow>
          if p_idx = - 1 then Some (Inr me1)
          else
            (case pdb me1 p_idx of
               None \<Rightarrow> Some (offer_loop me1 p_idx peer)
             | Some pce \<Rightarrow>
                 if bt_piece_is_complete pce then
                   (case call_have_piece me1 p_idx of
                      Inl e \<Rightarrow> Some (Inl e)
                    | Inr me2 \<Rightarrow> poll_loop fuel me2 peer)
                 else Some (offer_loop me1 p_idx peer)))"

definition dispatch_job ::
    "nat \<Rightarrow> 'sel bt_dm_private_t \<Rightarrow> bt_job_t \<Rightarrow> (fault + 'sel bt_dm_private_t) option" where
  "dispatch_job fuel me j =
     (case j of
        BT_JOB_POLLBLOCK peer \<Rightarrow> poll_loop fuel me peer
      | BT_JOB_NONE \<Rightarrow> Some (Inl Assertion_failed))"

text \<open>\<open>__FUNC_peerconn_send_have\<close>: the visitor of the HAVE broadcast; \<open>udata\<close> is
  the piece.\<close>

definition FUNC_peerconn_send_have ::
    "bt_piece_t \<Rightarrow> 'sel bt_dm_private_t \<Rightarrow> peer_ptr \<Rightarrow> 'sel bt_dm_private_t" where
  "FUNC_peerconn_send_have udata me p =
     (if \<not> pwp_conn_flag_is_set (pc (peer_mem me p)) PC_HANDSHAKE_RECEIVED then me
      else pwp_conn_send_have me p (bt_piece_get_idx udata))"

text \<open>
  \<open>__FUNC_peerconn_pushblock\<close>. \<open>bt_piece_write_block\<close> (of \<open>bt_piece.c\<close>) is a
  parameter: it takes the piece, the block, the data and the peer and returns its
  result code and the piece as it has changed it. \<open>suspect_all\<close> is the \<open>for\<close> loop over
  \<open>bt_piece_get_peers\<close>.
\<close>

definition suspect_all :: "bt_blacklist_t \<Rightarrow> int \<Rightarrow> peer_ptr list \<Rightarrow> bt_blacklist_t" where
  "suspect_all bl piece ps =
     foldl (\<lambda>b peer2. bt_blacklist_add_peer_as_potentially_blacklisted b piece peer2) bl ps"

definition FUNC_peerconn_pushblock ::
    "(bt_piece_t \<Rightarrow> bt_block_t \<Rightarrow> byte list \<Rightarrow> peer_ptr \<Rightarrow> int \<times> bt_piece_t)
      \<Rightarrow> 'sel bt_dm_private_t \<Rightarrow> peer_ptr \<Rightarrow> bt_block_t \<Rightarrow> byte list
      \<Rightarrow> fault + (int \<times> 'sel bt_dm_private_t)" where
  "FUNC_peerconn_pushblock bt_piece_write_block me peer b data =
     (case pdb me (piece_idx b) of
        None \<Rightarrow> Inl Assertion_failed
      | Some p0 \<Rightarrow>
          (case bt_piece_write_block p0 b data peer of
             (r, p) \<Rightarrow>
               let me1 = me\<lparr>pdb := (pdb me)(piece_idx b \<mapsto> p)\<rparr> in
               if r = 2 then
                 and_then
                   (call_have_piece
                      (log_msg me1 ''client,piece downloaded,pieceidx=%d''
                         [Arg_int (bt_piece_get_idx p)])
                      (piece_idx b))
                   (\<lambda>me2.
                      Inr (1,
                        bt_peermanager_forall me2 (FUNC_peerconn_send_have p)
                          (me2\<lparr>pieces_completed :=
                                 sc_mark_complete (pieces_completed me2) (piece_idx b) 1\<rparr>)))
               else if r = 0 then Inr (1, emit me1 (Printf ''error writing block''))
               else if r = - 1 then
                 (if 1 = bt_piece_num_peers p then
                    Inr (1, me1\<lparr>blacklist := bt_blacklist_add_peer (blacklist me1) (piece_idx b) peer\<rparr>)
                  else
                    and_then
                      (call_peer_giveback_piece
                         (me1\<lparr>blacklist := suspect_all (blacklist me1) (piece_idx b) (bt_piece_get_peers p),
                              pdb := (pdb me1)(piece_idx b \<mapsto> bt_piece_drop_download_progress p)\<rparr>)
                         None (idx p))
                      (\<lambda>me2. Inr (1, me2)))
               else Inr (1, me1)))"

text \<open>\<open>__FUNC_peerconn_peer_have_piece\<close>.\<close>

definition FUNC_peerconn_peer_have_piece ::
    "'sel bt_dm_private_t \<Rightarrow> peer_ptr \<Rightarrow> int \<Rightarrow> fault + 'sel bt_dm_private_t" where
  "FUNC_peerconn_peer_have_piece me peer i = call_peer_have_piece me peer i"

text \<open>\<open>__FUNC_peerconn_giveback_block\<close>.\<close>

definition FUNC_peerconn_giveback_block ::
    "'sel bt_dm_private_t \<Rightarrow> peer_ptr \<Rightarrow> bt_block_t \<Rightarrow> fault + 'sel bt_dm_private_t" where
  "FUNC_peerconn_giveback_block me peer b =
     (if len b < 0 then Inr me
      else
        (case pdb me (piece_idx b) of
           None \<Rightarrow> Inl Assertion_failed
         | Some p \<Rightarrow>
             call_peer_giveback_piece
               (me\<lparr>pdb := (pdb me)(piece_idx b \<mapsto> bt_piece_giveback_block p b)\<rparr>)
               (Some peer) (piece_idx b)))"

text \<open>
  \<open>bt_dm_add_peer\<close>. \<open>add_remote_peer\<close> is the function from \<open>/* remember the peer */\<close>
  on. Creating the connection (\<open>pwp_conn_new\<close>, \<open>pwp_conn_set_cbs\<close>,
  \<open>pwp_conn_set_progress\<close>, \<open>pwp_conn_set_piece_info\<close>, \<open>pwp_conn_set_peer\<close>) gives the
  peer a new connection; \<open>pwp_handshaker_new\<close> gives it a handshaker that has read
  nothing yet.
\<close>

definition add_remote_peer ::
    "'sel bt_dm_private_t \<Rightarrow> string \<Rightarrow> int \<Rightarrow> string \<Rightarrow> int \<Rightarrow> int \<Rightarrow> nethandle
      \<Rightarrow> fault + (peer_ptr option \<times> 'sel bt_dm_private_t)" where
  "add_remote_peer me pid pid_len ip_s ip_len port_n nh =
     (case bt_peermanager_add_peer me pid pid_len ip_s ip_len port_n of
        (None, me0) \<Rightarrow> Inr (None, me0)
      | (Some p, me0) \<Rightarrow>
          let me1 = (case pselector me0 of
                       None \<Rightarrow> me0
                     | Some s \<Rightarrow> emit (me0\<lparr>pselector := Some (add_peer (ips me0) s p)\<rparr>) (Ips_add_peer p));
              me2 = (case nh of
                       None \<Rightarrow> me1
                     | Some h \<Rightarrow> me1\<lparr>peer_mem := (peer_mem me1)(p := (peer_mem me1 p)\<lparr>nethandle := nh\<rparr>)\<rparr>);
              me3 = me2\<lparr>peer_mem := (peer_mem me2)(p := (peer_mem me2 p)\<lparr>pc := pwp_conn_new\<rparr>)\<rparr>;
              finish = (\<lambda>m. Inr (Some p,
                          m\<lparr>peer_mem := (peer_mem m)(p := (peer_mem m p)\<lparr>mh := Handshaker []\<rparr>),
                            lchoke := lchoke m @ [p]\<rparr>))
          in
            (case peer_connect (cb me3) of
               None \<Rightarrow> Inr (None, me3)
             | Some connect \<Rightarrow>
                 (case nh of
                    Some h \<Rightarrow> finish me3
                  | None \<Rightarrow>
                      (case connect (ip (peer_mem me3 p)) (port (peer_mem me3 p)) of
                         (r, h) \<Rightarrow>
                           let me4 = emit
                                 (me3\<lparr>peer_mem := (peer_mem me3)(p := (peer_mem me3 p)\<lparr>nethandle := h\<rparr>)\<rparr>)
                                 (Cb_peer_connect (ip (peer_mem me3 p)) (port (peer_mem me3 p)))
                           in if r = 0 then Inr (None, log_msg me4 ''failed connection to peer'' [])
                              else finish me4))))"

definition bt_dm_add_peer ::
    "'sel bt_dm_private_t \<Rightarrow> string \<Rightarrow> int \<Rightarrow> string \<Rightarrow> int \<Rightarrow> int \<Rightarrow> nethandle
      \<Rightarrow> fault + (peer_ptr option \<times> 'sel bt_dm_private_t)" where
  "bt_dm_add_peer me pid pid_len ip_s ip_len port_n nh =
     (case cfg me ''my_ip'' of
        None \<Rightarrow> Inl Null_dereference
      | Some my_ip \<Rightarrow>
          if strncmp ip_s my_ip (size_t_of ip_len) = 0 then
            (case cfg me ''pwp_listen_port'' of
               None \<Rightarrow> Inl Null_dereference
             | Some listen_port \<Rightarrow>
                 if port_n = atoi listen_port then Inr (None, me)
                 else add_remote_peer me pid pid_len ip_s ip_len port_n nh)
          else add_remote_peer me pid pid_len ip_s ip_len port_n nh)"






section \<open>Example states\<close>

text \<open>A selector that hands out the piece indices of a list in order, forgets an
  index it is told we have, and queues an index that is given back.\<close>

definition list_selector :: "int list bt_pieceselector_i" where
  "list_selector =
     \<lparr>add_peer = (\<lambda>s p. s),
      remove_peer = (\<lambda>s p. s),
      have_piece = (\<lambda>s i. removeAll i s),
      peer_have_piece = (\<lambda>s p i. s),
      peer_giveback_piece = (\<lambda>s p i. s @ [i]),
      poll_piece = (\<lambda>s p. case s of [] \<Rightarrow> (- 1, []) | i # r \<Rightarrow> (i, r))\<rparr>"

definition demo_peer :: "nat \<Rightarrow> pc_flag set \<Rightarrow> bt_peer_t" where
  "demo_peer h fs =
     \<lparr>peer_id = ''peer'', ip = ''10.0.0.2'', port = 6881 + int h, nethandle = Some h,
      pc = \<lparr>pc_flags = fs, pc_drate = 0, pc_urate = 0\<rparr>,
      mh = (if PC_HANDSHAKE_RECEIVED \<in> fs then Msghandler [] else Handshaker [])\<rparr>"

definition demo_piece :: "int \<Rightarrow> block_state list \<Rightarrow> peer_ptr list \<Rightarrow> bool \<Rightarrow> bt_piece_t" where
  "demo_piece i bs cs ok =
     \<lparr>idx = i, piece_len = 40000, blocks = bs, contributors = cs, sha1_ok = ok\<rparr>"

text \<open>A write function for the examples, after the spec's account of
  \<open>bt_piece_write_block\<close>: the block becomes RECEIVED and the peer a contributor; the
  result is 2 when the piece is then complete and its SHA-1 matches, -1 when every
  block is there and the SHA-1 does not match, and 1 otherwise.\<close>

definition demo_write_block ::
    "bt_piece_t \<Rightarrow> bt_block_t \<Rightarrow> byte list \<Rightarrow> peer_ptr \<Rightarrow> int \<times> bt_piece_t" where
  "demo_write_block p b data peer =
     (let p1 = p\<lparr>blocks := (blocks p)[nat (offset b div block_size) := RECEIVED],
                  contributors := contributors p @ [peer]\<rparr>
      in if list_all (\<lambda>s. s = RECEIVED) (blocks p1)
         then (if sha1_ok p1 then 2 else - 1, p1)
         else (1, p1))"

text \<open>A handshaker for the examples: it waits for the 68 bytes of a handshake, is
  done when they start with the length byte 19, and hands back what follows them. The
  message handler of the examples accepts its input and does nothing.\<close>

definition demo_hs_dispatch :: "byte list \<Rightarrow> byte list \<Rightarrow> int \<times> byte list \<times> byte list" where
  "demo_hs_dispatch hs buf =
     (let need = 68 - length hs in
      if length buf < need then (0, hs @ buf, [])
      else if take 1 (hs @ buf) = [19] then (1, hs @ take need buf, drop need buf)
      else (- 1, hs, buf))"

definition demo_mh_dispatch ::
    "int list bt_dm_private_t \<Rightarrow> peer_ptr \<Rightarrow> byte list \<Rightarrow> int \<times> int list bt_dm_private_t" where
  "demo_mh_dispatch me peer buf = (1, me)"

text \<open>A manager with five pieces of three blocks and three registered peers: peer 0
  has completed the handshake, peer 1 has not, peer 2 has a failed connection. Pieces
  2, 3 and 4 lack their last block; piece 2 will verify, pieces 3 and 4 will not;
  piece 3 has one contributor so far and piece 4 two. The client is 10.0.0.1:6881 and
  allows two pending requests.\<close>

definition demo_dm :: "int list bt_dm_private_t" where
  "demo_dm =
     \<lparr>pdb = map_of [(0, demo_piece 0 [MISSING, MISSING, MISSING] [] False),
                    (1, demo_piece 1 [REQUESTED, MISSING, MISSING] [] False),
                    (2, demo_piece 2 [RECEIVED, RECEIVED, REQUESTED] [0] True),
                    (3, demo_piece 3 [RECEIVED, RECEIVED, REQUESTED] [0] False),
                    (4, demo_piece 4 [RECEIVED, RECEIVED, REQUESTED] [0, 1] False)],
      cb = \<lparr>peer_connect = Some (\<lambda>a n. (1, Some 9)), peer_send = Some (\<lambda>h m. 1), cb_log = False\<rparr>,
      jobs = [],
      cfg = default_cfg(''my_ip'' \<mapsto> ''10.0.0.1'', ''max_pending_requests'' \<mapsto> ''2'',
              ''npieces'' \<mapsto> ''5''),
      peer_mem = (\<lambda>p. if p = 0 then demo_peer 0 {PC_HANDSHAKE_RECEIVED}
                        else if p = 1 then demo_peer 1 {}
                        else demo_peer 2 {PC_HANDSHAKE_RECEIVED, PC_FAILED_CONNECTION}),
      peer_next = 3,
      pm = [0, 1, 2],
      blacklist = [],
      lchoke = [0, 1, 2],
      ips = list_selector,
      pselector = Some [0, 1],
      am_seeding = 0,
      pieces_completed = {},
      trace = []\<rparr>"

section \<open>Notions used in the statements\<close>

text \<open>The positions of the MISSING blocks, counted from \<open>n\<close>, in ascending order.\<close>

fun missing_from :: "nat \<Rightarrow> block_state list \<Rightarrow> nat list" where
  "missing_from n [] = []"
| "missing_from n (s # ss) =
     (if s = MISSING then n # missing_from (Suc n) ss else missing_from (Suc n) ss)"

text \<open>A piece after every MISSING block has been requested, and the events that
  offer the MISSING blocks of a piece to a connection, in ascending order.\<close>

definition fully_request :: "bt_piece_t \<Rightarrow> bt_piece_t" where
  "fully_request pce =
     pce\<lparr>blocks := map (\<lambda>s. if s = MISSING then REQUESTED else s) (blocks pce)\<rparr>"

definition offer_events :: "peer_ptr \<Rightarrow> bt_piece_t \<Rightarrow> event list" where
  "offer_events peer pce =
     map (\<lambda>i. Pwp_conn_offer_block peer (block_at pce i)) (missing_from 0 (blocks pce))"






section \<open>Properties of the URL helpers\<close>

lemma fifteen_mask: "(15::byte) = mask 4"
  by (simp add: mask_eq_exp_minus_1)

lemma nibble_cases: "(x::byte) AND 15 \<in> {0,1,2,3,4,5,6,7,8,9,10,11,12,13,14,15}"
proof -
  have "unat (x AND 15) \<le> unat (15 :: byte)"
    by (rule word_and_le1 [THEN word_le_nat_alt [THEN iffD1]])
  then have "unat (x AND 15) < 16" by simp
  then have "unat (x AND 15) \<in> {0,1,2,3,4,5,6,7,8,9,10,11,12,13,14,15}"
    by (auto simp: less_Suc_eq numeral_eq_Suc)
  then have "word_of_nat (unat (x AND 15)) \<in> (word_of_nat ` {0,1,2,3,4,5,6,7,8,9,10,11,12,13,14,15} :: byte set)"
    by (rule imageI)
  then show ?thesis by simp
qed

lemma from_hex_to_hex: "from_hex (to_hex x) = x AND 15"
  using nibble_cases [of x]
  by (auto simp: to_hex_def from_hex_def hex_def isdigit_def tolower_def)

lemma to_hex_nonzero: "to_hex x \<noteq> 0"
  using nibble_cases [of x]
  by (auto simp: to_hex_def hex_def)

lemma to_hex_upper: "upper_hex_digit (to_hex x)"
  using nibble_cases [of x]
  by (auto simp: to_hex_def hex_def upper_hex_digit_def)

lemma nibbles_recombine:
  "push_bit 4 (signed_drop_bit 4 c AND 15) OR (c AND 15) = (c::byte)"
  unfolding fifteen_mask
  by (rule bit_word_eqI) (auto simp: bit_simps)

lemma signed_shift_nibble: "signed_drop_bit 4 c AND 15 = drop_bit 4 (c::byte)"
  unfolding fifteen_mask
  by (rule bit_word_eqI) (auto simp: bit_simps dest: bit_imp_le_length)

lemma drop_bit_nibble: "drop_bit 4 (c::byte) AND 15 = drop_bit 4 c"
  unfolding fifteen_mask
  by (rule bit_word_eqI) (auto simp: bit_simps dest: bit_imp_le_length)

lemma to_hex_signed_shift: "to_hex (signed_drop_bit 4 c) = hex ! unat (drop_bit 4 c)"
  by (simp add: to_hex_def signed_shift_nibble)

lemma isalnum_plain: "isalnum c \<Longrightarrow> c \<noteq> 0 \<and> c \<noteq> 0x25 \<and> c \<noteq> 0x2B"
  by (auto simp: isalnum_def)

lemma url_decode_escape:
  "url_decode (0x25 # to_hex (signed_drop_bit 4 c) # to_hex (c AND 15) # rest) = c # url_decode rest"
proof -
  have "push_bit 4 (from_hex (to_hex (signed_drop_bit 4 c))) OR from_hex (to_hex (c AND 15)) = c"
    using nibbles_recombine [of c] by (simp add: from_hex_to_hex)
  then show ?thesis by (simp add: to_hex_nonzero)
qed

lemma url_decode_url_encode: "url_decode (url_encode s) = c_str s"
proof (induction s)
  case Nil
  show ?case by (simp add: c_str_def)
next
  case (Cons c s)
  show ?case
  proof (cases "c = 0")
    case True
    then show ?thesis by (simp add: c_str_def)
  next
    case nz: False
    show ?thesis
    proof (cases "isalnum c")
      case True
      with nz isalnum_plain [of c] Cons.IH show ?thesis
        by (simp add: c_str_def)
    next
      case False
      with nz Cons.IH show ?thesis
        by (simp only: url_encode.simps if_False url_decode_escape) (simp add: c_str_def)
    qed
  qed
qed

lemma url_encode_bytes: "url_encode s = concat (map encode_byte (c_str s))"
  by (induction s) (simp_all add: c_str_def encode_byte_def to_hex_def signed_shift_nibble)

lemma encode_byte_shape:
  "encode_byte c = [c] \<and> isalnum c \<or>
   (\<exists>h l. encode_byte c = [0x25, h, l] \<and> upper_hex_digit h \<and> upper_hex_digit l \<and> \<not> isalnum c)"
  using to_hex_upper [of "drop_bit 4 c"] to_hex_upper [of c]
  by (simp add: encode_byte_def to_hex_def drop_bit_nibble)

lemma url_encode_length: "length (url_encode s) \<le> 3 * length s"
  by (induction s) simp_all

text \<open>
  Claim C9. For every NUL-terminated byte string \<open>s\<close> (a list of non-zero bytes),
  decoding the encoding of \<open>s\<close> gives \<open>s\<close> back. The encoder emits, for each
  byte in turn, the byte itself when it is alphanumeric and otherwise \<open>'%'\<close> followed
  by two upper-case hexadecimal digits.
\<close>

theorem url_decode_url_encode_roundtrip:
  assumes "0 \<notin> set s"
  shows "url_decode (url_encode s) = s
    \<and> url_encode s = concat (map encode_byte s)
    \<and> (\<forall>c \<in> set s. if isalnum c then encode_byte c = [c]
          else \<exists>h l. encode_byte c = [0x25, h, l] \<and> upper_hex_digit h \<and> upper_hex_digit l)"
proof -
  from assms have s: "c_str s = s"
    by (auto simp: c_str_def takeWhile_eq_all_conv)
  have shape: "\<forall>c \<in> set s. if isalnum c then encode_byte c = [c]
          else \<exists>h l. encode_byte c = [0x25, h, l] \<and> upper_hex_digit h \<and> upper_hex_digit l"
  proof (intro ballI)
    fix c
    show "if isalnum c then encode_byte c = [c]
          else \<exists>h l. encode_byte c = [0x25, h, l] \<and> upper_hex_digit h \<and> upper_hex_digit l"
      using encode_byte_shape [of c] by (cases "isalnum c") auto
  qed
  show ?thesis
    using url_decode_url_encode [of s] url_encode_bytes [of s] shape by (simp add: s)
qed

theorem url_decode_url_encode_roundtrip_witness:
  "0 \<notin> set [0x61, 0x20, 0xFF, 0x2B, 0x25, 0x80 :: byte]
   \<and> url_decode (url_encode [0x61, 0x20, 0xFF, 0x2B, 0x25, 0x80]) = [0x61, 0x20, 0xFF, 0x2B, 0x25, 0x80]"
proof -
  have nz: "0 \<notin> set [0x61, 0x20, 0xFF, 0x2B, 0x25, 0x80 :: byte]" by simp
  from url_decode_url_encode_roundtrip [OF nz]
  have "url_decode (url_encode [0x61, 0x20, 0xFF, 0x2B, 0x25, 0x80]) = [0x61, 0x20, 0xFF, 0x2B, 0x25, 0x80]"
    by (rule conjunct1)
  with nz show ?thesis by (rule conjI)
qed

section \<open>Properties of the download manager\<close>

subsection \<open>Giving back a block\<close>

text \<open>
  Claim C10. When \<open>__FUNC_peerconn_giveback_block\<close> is called with a block whose
  \<open>len\<close> is negative it returns at once: the manager is left exactly as it was, so no
  piece changes its block state and \<open>peer_giveback_piece\<close> of the selector is not
  called (the trace gains no event).
\<close>

theorem giveback_block_negative_len:
  assumes "len b < 0"
  shows "FUNC_peerconn_giveback_block me peer b = Inr me"
  using assms by (simp add: FUNC_peerconn_giveback_block_def)

theorem giveback_block_negative_len_witness:
  "len \<lparr>piece_idx = 1, offset = 0, len = - 1\<rparr> < 0
   \<and> FUNC_peerconn_giveback_block demo_dm 0 \<lparr>piece_idx = 1, offset = 0, len = - 1\<rparr> = Inr demo_dm"
proof -
  have neg: "len \<lparr>piece_idx = 1, offset = 0, len = - 1\<rparr> < 0" by simp
  from neg giveback_block_negative_len [OF neg, of demo_dm 0] show ?thesis by (rule conjI)
qed

text \<open>With a length that is not negative the same call does change the manager: the
  early return is what keeps it unchanged above.\<close>

lemma giveback_block_nonneg_example:
  "FUNC_peerconn_giveback_block demo_dm 0 \<lparr>piece_idx = 1, offset = 0, len = 16384\<rparr> \<noteq> Inr demo_dm"
  by (simp add: FUNC_peerconn_giveback_block_def demo_dm_def call_peer_giveback_piece_def emit_def)

subsection \<open>The choker-peer interface\<close>

text \<open>
  Claim C8. For every manager and every connection, \<open>get_drate\<close> and \<open>get_urate\<close>
  return 0. \<open>get_is_interested\<close> leaves the manager (and with it every connection)
  unchanged; \<open>choke_peer\<close> and \<open>unchoke_peer\<close> change nothing but to have CHOKE,
  respectively UNCHOKE, enqueued for the peer of the connection.
\<close>

theorem choker_peer_iface:
  "get_drate bto pc_ptr = 0 \<and> get_urate bto pc_ptr = 0
   \<and> snd (get_is_interested bto pc_ptr) = bto
   \<and> choke_peer bto pc_ptr = bto\<lparr>trace := trace bto @ [Pwp_conn_choke_peer pc_ptr]\<rparr>
   \<and> unchoke_peer bto pc_ptr = bto\<lparr>trace := trace bto @ [Pwp_conn_unchoke_peer pc_ptr]\<rparr>"
  by (simp add: get_drate_def get_urate_def get_is_interested_def choke_peer_def unchoke_peer_def
      pwp_conn_choke_peer_def pwp_conn_unchoke_peer_def emit_def)

subsection \<open>Adding a peer\<close>

lemma strncmp_same: "strncmp s s n = 0"
proof (induction s arbitrary: n)
  case Nil
  show ?case by (subst strncmp.simps) simp
next
  case (Cons a s)
  show ?case by (subst strncmp.simps) (simp add: Cons.IH)
qed

lemma add_remote_peer_duplicate:
  assumes "fst (bt_peermanager_add_peer me pid pid_len ip_s ip_len port_n) = None"
  shows "add_remote_peer me pid pid_len ip_s ip_len port_n nh = Inr (None, me)"
proof -
  from assms have "bt_peermanager_add_peer me pid pid_len ip_s ip_len port_n = (None, me)"
    by (simp add: bt_peermanager_add_peer_def Let_def split: if_splits)
  then show ?thesis
    by (simp add: add_remote_peer_def)
qed

lemma peermanager_rejects_duplicate:
  "fst (bt_peermanager_add_peer me pid pid_len ip_s ip_len port_n) = None \<longleftrightarrow>
   (\<exists>p \<in> set (pm me). ip (peer_mem me p) = take (size_t_of ip_len) ip_s \<and> port (peer_mem me p) = port_n)"
  by (simp add: bt_peermanager_add_peer_def Let_def list_ex_iff)

text \<open>
  Claim C6. Whatever the peer id, the net handle and the rest of the configuration:
  \<open>bt_dm_add_peer\<close> returns null when (ip, port) is the configured (\<open>my_ip\<close>,
  \<open>pwp_listen_port\<close>), and returns null when the peer manager refuses the peer as a
  duplicate of a registered (ip, port). In both cases the manager is left as it was: no
  peer is registered, the selector and the choker hear of none.
\<close>

theorem add_peer_refuses_self_and_duplicate:
  assumes "cfg me ''my_ip'' = Some my_ip"
      and "cfg me ''pwp_listen_port'' = Some listen_port"
      and "ip_s = my_ip \<and> port_n = atoi listen_port
           \<or> fst (bt_peermanager_add_peer me pid pid_len ip_s ip_len port_n) = None"
  shows "bt_dm_add_peer me pid pid_len ip_s ip_len port_n nh = Inr (None, me)"
  using assms
  by (auto simp: bt_dm_add_peer_def strncmp_same add_remote_peer_duplicate)

theorem add_peer_refuses_self_and_duplicate_witness:
  "bt_dm_add_peer demo_dm ''-AB0001-000000000000'' 20 ''10.0.0.1'' 8 6881 None = Inr (None, demo_dm)
   \<and> bt_dm_add_peer demo_dm ''-AB0001-000000000000'' 20 ''10.0.0.2'' 8 6882 (Some 5) = Inr (None, demo_dm)"
proof -
  have ip: "cfg demo_dm ''my_ip'' = Some ''10.0.0.1''"
    by (simp add: demo_dm_def)
  have lp: "cfg demo_dm ''pwp_listen_port'' = Some ''6881''"
    by (simp add: demo_dm_def default_cfg_def)
  have self: "''10.0.0.1'' = ''10.0.0.1'' \<and> (6881::int) = atoi ''6881''
      \<or> fst (bt_peermanager_add_peer demo_dm ''-AB0001-000000000000'' 20 ''10.0.0.1'' 8 6881) = None"
    by (simp add: atoi_def isspace_def)
  have dup: "''10.0.0.2'' = ''10.0.0.1'' \<and> (6882::int) = atoi ''6881''
      \<or> fst (bt_peermanager_add_peer demo_dm ''-AB0001-000000000000'' 20 ''10.0.0.2'' 8 6882) = None"
    by (simp add: bt_peermanager_add_peer_def demo_dm_def demo_peer_def size_t_of_def)
  from add_peer_refuses_self_and_duplicate [OF ip lp self]
    add_peer_refuses_self_and_duplicate [OF ip lp dup]
  show ?thesis by simp
qed

text \<open>A peer that is neither is registered.\<close>

lemma add_peer_accepts_example:
  "\<exists>me'. bt_dm_add_peer demo_dm ''-AB0001-000000000000'' 20 ''10.0.0.3'' 8 6882 None = Inr (Some 3, me')
     \<and> pm me' = [0, 1, 2, 3]"
  by (simp add: bt_dm_add_peer_def add_remote_peer_def bt_peermanager_add_peer_def demo_dm_def
      demo_peer_def size_t_of_def default_cfg_def atoi_def isspace_def Let_def emit_def
      list_selector_def strncmp.simps)

subsection \<open>Receiving a block\<close>

text \<open>An event or a log line changes the trace and nothing else.\<close>

lemma emit_fields [simp]:
  "pdb (emit m e) = pdb m" "cb (emit m e) = cb m" "jobs (emit m e) = jobs m"
  "cfg (emit m e) = cfg m" "peer_mem (emit m e) = peer_mem m" "peer_next (emit m e) = peer_next m"
  "pm (emit m e) = pm m" "blacklist (emit m e) = blacklist m" "lchoke (emit m e) = lchoke m"
  "ips (emit m e) = ips m" "pselector (emit m e) = pselector m" "am_seeding (emit m e) = am_seeding m"
  "pieces_completed (emit m e) = pieces_completed m" "trace (emit m e) = trace m @ [e]"
  by (simp_all add: emit_def)

lemma log_msg_fields [simp]:
  "pdb (log_msg m f a) = pdb m" "cb (log_msg m f a) = cb m" "jobs (log_msg m f a) = jobs m"
  "cfg (log_msg m f a) = cfg m" "peer_mem (log_msg m f a) = peer_mem m"
  "peer_next (log_msg m f a) = peer_next m"
  "pm (log_msg m f a) = pm m" "blacklist (log_msg m f a) = blacklist m"
  "lchoke (log_msg m f a) = lchoke m"
  "ips (log_msg m f a) = ips m" "pselector (log_msg m f a) = pselector m"
  "am_seeding (log_msg m f a) = am_seeding m"
  "pieces_completed (log_msg m f a) = pieces_completed m"
  by (simp_all add: log_msg_def FUNC_log_def)

text \<open>A visitor that raises an event for the peers that pass a test leaves, after
  \<open>bt_peermanager_forall\<close>, one event for each such peer, in the order of the peer
  manager.\<close>

lemma foldl_visitor_emit:
  assumes "\<And>m q. visitor m q = (if P (peer_mem m q) then emit m (ev q) else m)"
  shows "foldl visitor m ps
     = m\<lparr>trace := trace m @ map ev (filter (\<lambda>q. P (peer_mem m q)) ps)\<rparr>"
proof (induction ps arbitrary: m)
  case Nil
  show ?case by simp
next
  case (Cons q ps)
  show ?case
  proof (cases "P (peer_mem m q)")
    case True
    then have "visitor m q = emit m (ev q)" by (simp add: assms)
    with True show ?thesis by (simp add: Cons.IH emit_def)
  next
    case False
    then have "visitor m q = m" by (simp add: assms)
    with False show ?thesis by (simp add: Cons.IH)
  qed
qed

lemma forall_send_have:
  "bt_peermanager_forall m0 (FUNC_peerconn_send_have p) m
     = m\<lparr>trace := trace m @ map (\<lambda>q. Pwp_conn_send_have q (bt_piece_get_idx p))
          (filter (\<lambda>q. pwp_conn_flag_is_set (pc (peer_mem m q)) PC_HANDSHAKE_RECEIVED) (pm m0))\<rparr>"
  unfolding bt_peermanager_forall_def
  by (rule foldl_visitor_emit [where P = "\<lambda>x. pwp_conn_flag_is_set (pc x) PC_HANDSHAKE_RECEIVED"])
     (simp add: FUNC_peerconn_send_have_def pwp_conn_send_have_def)

lemma count_list_map_distinct:
  assumes "distinct xs" and "inj f"
  shows "count_list (map f xs) y = (if y \<in> f ` set xs then 1 else 0)"
  using assms
proof (induction xs)
  case Nil
  show ?case by simp
next
  case (Cons x xs)
  then show ?case by (auto dest: injD)
qed


lemma have_event_inj: "inj (\<lambda>q. Pwp_conn_send_have q i)"
  by (simp add: inj_def)

lemma count_have_other_index:
  "i \<noteq> j \<Longrightarrow> count_list (map (\<lambda>q. Pwp_conn_send_have q j) xs) (Pwp_conn_send_have q i) = 0"
  by (induction xs) auto

text \<open>
  Claim C3. When \<open>bt_piece_write_block\<close> returns 2 in \<open>__FUNC_peerconn_pushblock\<close>,
  the manager marks the piece index complete in the sparse counter, calls
  \<open>have_piece(idx)\<close> of the selector, and has exactly one HAVE(idx) sent to every
  registered peer whose PC_HANDSHAKE_RECEIVED flag is set, and none to any other peer.
  (The piece database holds the piece under its own index, the selector is set, and
  the peer manager lists no peer twice.)
\<close>

theorem pushblock_complete_piece:
  assumes piece: "pdb me (piece_idx b) = Some p0"
      and written: "bt_piece_write_block p0 b data peer = (2, p)"
      and same_idx: "bt_piece_get_idx p = piece_idx b"
      and sel: "pselector me = Some s"
      and pm_distinct: "distinct (pm me)"
  shows "\<exists>me'. FUNC_peerconn_pushblock bt_piece_write_block me peer b data = Inr (1, me')
      \<and> pieces_completed me' = insert (piece_idx b) (pieces_completed me)
      \<and> pselector me' = Some (have_piece (ips me) s (piece_idx b))
      \<and> trace me' =
          trace (log_msg me ''client,piece downloaded,pieceidx=%d'' [Arg_int (piece_idx b)])
          @ [Ips_have_piece (piece_idx b)]
          @ map (\<lambda>q. Pwp_conn_send_have q (piece_idx b))
              (filter (\<lambda>q. pwp_conn_flag_is_set (pc (peer_mem me q)) PC_HANDSHAKE_RECEIVED) (pm me))
      \<and> (\<forall>q i. count_list (drop (length (trace me)) (trace me')) (Pwp_conn_send_have q i) =
            (if i = piece_idx b \<and> q \<in> set (pm me)
                \<and> pwp_conn_flag_is_set (pc (peer_mem me q)) PC_HANDSHAKE_RECEIVED
             then 1 else 0))"
proof -
  let ?i = "piece_idx b"
  let ?hs = "filter (\<lambda>q. pwp_conn_flag_is_set (pc (peer_mem me q)) PC_HANDSHAKE_RECEIVED) (pm me)"
  let ?lg = "log_msg me ''client,piece downloaded,pieceidx=%d'' [Arg_int ?i]"
  define me' where "me' = me\<lparr>pdb := (pdb me)(?i \<mapsto> p),
      pselector := Some (have_piece (ips me) s ?i),
      pieces_completed := insert ?i (pieces_completed me),
      trace := trace ?lg @ [Ips_have_piece ?i] @ map (\<lambda>q. Pwp_conn_send_have q ?i) ?hs\<rparr>"
  have one: "{?i ..< ?i + 1} = {?i}" by auto
  have run: "FUNC_peerconn_pushblock bt_piece_write_block me peer b data = Inr (1, me')"
    using piece written same_idx sel
    by (simp add: one FUNC_peerconn_pushblock_def and_then_def call_have_piece_def forall_send_have
        sc_mark_complete_def me'_def log_msg_def FUNC_log_def emit_def)
  have tr: "drop (length (trace me)) (trace me')
      = drop (length (trace me)) (trace ?lg) @ [Ips_have_piece ?i] @ map (\<lambda>q. Pwp_conn_send_have q ?i) ?hs"
    by (simp add: me'_def log_msg_def FUNC_log_def emit_def)
  have lg: "count_list (drop (length (trace me)) (trace ?lg)) (Pwp_conn_send_have q i) = 0" for q i
    by (simp add: log_msg_def FUNC_log_def emit_def)
  have cnt: "count_list (drop (length (trace me)) (trace me')) (Pwp_conn_send_have q i) =
            (if i = ?i \<and> q \<in> set (pm me)
                \<and> pwp_conn_flag_is_set (pc (peer_mem me q)) PC_HANDSHAKE_RECEIVED
             then 1 else 0)" for q i
  proof (cases "i = ?i")
    case True
    have "distinct ?hs" using pm_distinct by simp
    from count_list_map_distinct [OF this have_event_inj, of ?i "Pwp_conn_send_have q ?i"]
    show ?thesis using True by (auto simp: tr lg)
  next
    case False
    then show ?thesis by (simp add: tr lg count_have_other_index)
  qed
  show ?thesis
    using run cnt by (intro exI [of _ me']) (simp add: me'_def)
qed


theorem pushblock_complete_piece_witness:
  "pdb demo_dm 2 = Some (demo_piece 2 [RECEIVED, RECEIVED, REQUESTED] [0] True)
   \<and> demo_write_block (demo_piece 2 [RECEIVED, RECEIVED, REQUESTED] [0] True)
        \<lparr>piece_idx = 2, offset = 32768, len = 7232\<rparr> [] 0
        = (2, demo_piece 2 [RECEIVED, RECEIVED, RECEIVED] [0, 0] True)
   \<and> distinct (pm demo_dm)
   \<and> (\<exists>me'. FUNC_peerconn_pushblock demo_write_block demo_dm 0
                 \<lparr>piece_idx = 2, offset = 32768, len = 7232\<rparr> [] = Inr (1, me')
          \<and> pieces_completed me' = {2}
          \<and> pselector me' = Some [0, 1]
          \<and> trace me' = [Ips_have_piece 2, Pwp_conn_send_have 0 2, Pwp_conn_send_have 2 2])"
proof -
  let ?b = "\<lparr>piece_idx = 2, offset = 32768, len = 7232\<rparr>"
  have piece: "pdb demo_dm (piece_idx ?b) = Some (demo_piece 2 [RECEIVED, RECEIVED, REQUESTED] [0] True)"
    by (simp add: demo_dm_def)
  have written: "demo_write_block (demo_piece 2 [RECEIVED, RECEIVED, REQUESTED] [0] True) ?b [] 0
      = (2, demo_piece 2 [RECEIVED, RECEIVED, RECEIVED] [0, 0] True)"
    by (simp add: demo_write_block_def demo_piece_def block_size_def Let_def)
  have same_idx: "bt_piece_get_idx (demo_piece 2 [RECEIVED, RECEIVED, RECEIVED] [0, 0] True) = piece_idx ?b"
    by (simp add: bt_piece_get_idx_def demo_piece_def)
  have sel: "pselector demo_dm = Some [0, 1]"
    by (simp add: demo_dm_def)
  have pm_distinct: "distinct (pm demo_dm)"
    by (simp add: demo_dm_def)
  from pushblock_complete_piece [where bt_piece_write_block = demo_write_block, OF piece written same_idx sel pm_distinct]
  obtain me' where
    run: "FUNC_peerconn_pushblock demo_write_block demo_dm 0 ?b [] = Inr (1, me')"
    and sc: "pieces_completed me' = insert (piece_idx ?b) (pieces_completed demo_dm)"
    and ps: "pselector me' = Some (have_piece (ips demo_dm) [0, 1] (piece_idx ?b))"
    and tr: "trace me' =
          trace (log_msg demo_dm ''client,piece downloaded,pieceidx=%d'' [Arg_int (piece_idx ?b)])
          @ [Ips_have_piece (piece_idx ?b)]
          @ map (\<lambda>q. Pwp_conn_send_have q (piece_idx ?b))
              (filter (\<lambda>q. pwp_conn_flag_is_set (pc (peer_mem demo_dm q)) PC_HANDSHAKE_RECEIVED)
                 (pm demo_dm))"
    by blast
  have sc': "pieces_completed me' = {2}"
    using sc by (simp add: demo_dm_def)
  have ps': "pselector me' = Some [0, 1]"
    using ps by (simp add: demo_dm_def list_selector_def)
  have tr': "trace me' = [Ips_have_piece 2, Pwp_conn_send_have 0 2, Pwp_conn_send_have 2 2]"
    using tr by (simp add: demo_dm_def demo_peer_def log_msg_def pwp_conn_flag_is_set_def)
  from piece written pm_distinct run sc' ps' tr' show ?thesis by auto
qed

text \<open>The two branches of \<open>case -1\<close>. With one contributor the peer is banned and
  that is all; only with another number of contributors are they marked as suspects,
  the download progress dropped and the selector told to take the piece back.\<close>

lemma pushblock_invalid_sole_contributor:
  assumes "pdb me (piece_idx b) = Some p0"
      and "bt_piece_write_block p0 b data peer = (- 1, p)"
      and "bt_piece_num_peers p = 1"
  shows "FUNC_peerconn_pushblock bt_piece_write_block me peer b data =
     Inr (1, me\<lparr>pdb := (pdb me)(piece_idx b \<mapsto> p),
               blacklist := bt_blacklist_add_peer (blacklist me) (piece_idx b) peer\<rparr>)"
  using assms by (simp add: FUNC_peerconn_pushblock_def)

lemma pushblock_invalid_several_contributors:
  assumes "pdb me (piece_idx b) = Some p0"
      and "bt_piece_write_block p0 b data peer = (- 1, p)"
      and "bt_piece_num_peers p \<noteq> 1"
      and "pselector me = Some s"
  shows "FUNC_peerconn_pushblock bt_piece_write_block me peer b data =
     Inr (1, me\<lparr>pdb := (pdb me)(piece_idx b \<mapsto> bt_piece_drop_download_progress p),
               blacklist := suspect_all (blacklist me) (piece_idx b) (bt_piece_get_peers p),
               pselector := Some (peer_giveback_piece (ips me) s None (idx p)),
               trace := trace me @ [Ips_peer_giveback_piece None (idx p)]\<rparr>)"
  using assms
  by (simp add: FUNC_peerconn_pushblock_def and_then_def call_peer_giveback_piece_def emit_def)

text \<open>
  Claim C1 says that after a result of -1 the piece's download progress is dropped and
  the selector is told to give the piece back whether one peer contributed or several.
  The code does both only in the \<open>else\<close> branch. In the example, peer 0 alone delivered
  piece 3 and the SHA-1 fails: peer 0 is banned, but every block of piece 3 stays
  RECEIVED, the selector state is as before and no call to the selector is made.
\<close>

theorem pushblock_invalid_sole_contributor_keeps_progress:
  "\<exists>me'. FUNC_peerconn_pushblock demo_write_block demo_dm 0
            \<lparr>piece_idx = 3, offset = 32768, len = 7232\<rparr> [] = Inr (1, me')
     \<and> bt_blacklist_is_banned (blacklist me') 0
     \<and> pdb me' 3 = Some (demo_piece 3 [RECEIVED, RECEIVED, RECEIVED] [0, 0] False)
     \<and> pselector me' = pselector demo_dm
     \<and> trace me' = trace demo_dm"
proof -
  let ?b = "\<lparr>piece_idx = 3, offset = 32768, len = 7232\<rparr>"
  have piece: "pdb demo_dm (piece_idx ?b) = Some (demo_piece 3 [RECEIVED, RECEIVED, REQUESTED] [0] False)"
    by (simp add: demo_dm_def)
  have written: "demo_write_block (demo_piece 3 [RECEIVED, RECEIVED, REQUESTED] [0] False) ?b [] 0
      = (- 1, demo_piece 3 [RECEIVED, RECEIVED, RECEIVED] [0, 0] False)"
    by (simp add: demo_write_block_def demo_piece_def block_size_def Let_def)
  have sole: "bt_piece_num_peers (demo_piece 3 [RECEIVED, RECEIVED, RECEIVED] [0, 0] False) = 1"
    by (simp add: bt_piece_num_peers_def bt_piece_get_peers_def demo_piece_def)
  from pushblock_invalid_sole_contributor [where bt_piece_write_block = demo_write_block, OF piece written sole]
  show ?thesis
    by (simp add: bt_blacklist_is_banned_def bt_blacklist_add_peer_def demo_dm_def)
qed

subsection \<open>Inbound bytes and the handshake\<close>

text \<open>
  Claim C5. In \<open>bt_dm_dispatch_from_buffer\<close>, for a peer whose
  PC_HANDSHAKE_RECEIVED flag is not set, the input goes to the handshaker; when the
  handshaker returns 1, the peer's handler becomes a new message handler, the flag is
  set on the connection, and the BITFIELD of the pieces marked complete in the sparse
  counter (one bit for each of \<open>npieces\<close>) is sent to that peer through \<open>peer_send\<close>.
  The function then goes on to the message handler with the input left over (after
  removing the peer, should the send have failed).
\<close>

theorem dispatch_handshake_completed:
  assumes peer: "bt_peermanager_nethandle_to_peer me h = Some peer"
      and fresh: "\<not> pwp_conn_flag_is_set (pc (peer_mem me peer)) PC_HANDSHAKE_RECEIVED"
      and hs: "mh (peer_mem me peer) = Handshaker hs"
      and completed: "hs_dispatch hs buf = (1, hs1, rest)"
      and send: "peer_send (cb me) = Some send"
  shows "\<exists>me1. 
      mh (peer_mem me1 peer) = Msghandler []
    \<and> pwp_conn_flag_is_set (pc (peer_mem me1 peer)) PC_HANDSHAKE_RECEIVED
    \<and> trace me1 = trace (log_msg me ''send,bitfield'' [])
        @ [Cb_peer_send (nethandle (peer_mem me peer))
             (BITFIELD (map (\<lambda>i. int i \<in> pieces_completed me)
                          [0 ..< nat (config_get_int (cfg me) ''npieces'')]))]
    \<and> bt_dm_dispatch_from_buffer hs_dispatch mh_dispatch me h buf =
        (if send (nethandle (peer_mem me peer))
              (BITFIELD (map (\<lambda>i. int i \<in> pieces_completed me)
                           [0 ..< nat (config_get_int (cfg me) ''npieces'')])) = 0
         then and_then (bt_dm_remove_peer me1 peer) (\<lambda>(r, me2). msghandler_phase mh_dispatch me2 peer rest)
         else msghandler_phase mh_dispatch me1 peer rest)"
proof -
  let ?bf = "BITFIELD (map (\<lambda>i. int i \<in> pieces_completed me)
                          [0 ..< nat (config_get_int (cfg me) ''npieces'')])"
  define me0 where "me0 = me\<lparr>peer_mem := (peer_mem me)(peer := (peer_mem me peer)
                   \<lparr>mh := Msghandler [],
                    pc := pwp_conn_set_state (pc (peer_mem me peer)) PC_HANDSHAKE_RECEIVED\<rparr>)\<rparr>"
  define me1 where "me1 = emit (log_msg me0 ''send,bitfield'' [])
      (Cb_peer_send (nethandle (peer_mem me peer)) ?bf)"
  have tr0: "trace (log_msg me0 ''send,bitfield'' []) = trace (log_msg me ''send,bitfield'' [])"
    by (simp add: me0_def log_msg_def FUNC_log_def emit_def)
  have hd: "handshake_done me peer =
      (if send (nethandle (peer_mem me peer)) ?bf = 0
       then and_then (bt_dm_remove_peer me1 peer) (\<lambda>(r, me2). Inr me2)
       else Inr me1)"
    using send
    by (simp add: handshake_done_def Let_def pwp_send_bitfield_def FUNC_peerconn_send_to_peer_def
        and_then_def me1_def me0_def)
  have a: "mh (peer_mem me1 peer) = Msghandler []"
    by (simp add: me1_def me0_def)
  have b: "pwp_conn_flag_is_set (pc (peer_mem me1 peer)) PC_HANDSHAKE_RECEIVED"
    by (simp add: me1_def me0_def pwp_conn_flag_is_set_def pwp_conn_set_state_def)
  have c: "trace me1 = trace (log_msg me ''send,bitfield'' [])
        @ [Cb_peer_send (nethandle (peer_mem me peer)) ?bf]"
    by (simp add: me1_def tr0)
  have d: "bt_dm_dispatch_from_buffer hs_dispatch mh_dispatch me h buf =
        (if send (nethandle (peer_mem me peer)) ?bf = 0
         then and_then (bt_dm_remove_peer me1 peer) (\<lambda>(r, me2). msghandler_phase mh_dispatch me2 peer rest)
         else msghandler_phase mh_dispatch me1 peer rest)"
    using peer fresh hs completed
    by (cases "bt_dm_remove_peer me1 peer")
       (auto simp: bt_dm_dispatch_from_buffer_def hd and_then_def split: prod.splits)
  from a b c d show ?thesis by blast
qed


theorem dispatch_handshake_completed_witness:
  "bt_peermanager_nethandle_to_peer demo_dm (Some 1) = Some 1
   \<and> \<not> pwp_conn_flag_is_set (pc (peer_mem demo_dm 1)) PC_HANDSHAKE_RECEIVED
   \<and> mh (peer_mem demo_dm 1) = Handshaker []
   \<and> demo_hs_dispatch [] (19 # replicate 67 0 @ [0, 0, 0, 0]) = (1, 19 # replicate 67 0, [0, 0, 0, 0])
   \<and> (\<exists>me1. bt_dm_dispatch_from_buffer demo_hs_dispatch demo_mh_dispatch demo_dm (Some 1)
                 (19 # replicate 67 0 @ [0, 0, 0, 0]) = Inr (1, me1)
          \<and> mh (peer_mem me1 1) = Msghandler []
          \<and> pwp_conn_flag_is_set (pc (peer_mem me1 1)) PC_HANDSHAKE_RECEIVED
          \<and> trace me1 = [Cb_peer_send (Some 1) (BITFIELD [False, False, False, False, False])])"
proof -
  have peer: "bt_peermanager_nethandle_to_peer demo_dm (Some 1) = Some 1"
    by (simp add: bt_peermanager_nethandle_to_peer_def demo_dm_def demo_peer_def)
  have fresh: "\<not> pwp_conn_flag_is_set (pc (peer_mem demo_dm 1)) PC_HANDSHAKE_RECEIVED"
    by (simp add: pwp_conn_flag_is_set_def demo_dm_def demo_peer_def)
  have hs: "mh (peer_mem demo_dm 1) = Handshaker []"
    by (simp add: demo_dm_def demo_peer_def)
  have completed: "demo_hs_dispatch [] (19 # replicate 67 0 @ [0, 0, 0, 0])
      = (1, 19 # replicate 67 0, [0, 0, 0, 0])"
    by (simp add: demo_hs_dispatch_def Let_def)
  have send: "peer_send (cb demo_dm) = Some (\<lambda>h m. 1)"
    by (simp add: demo_dm_def)
  have npieces: "nat (config_get_int (cfg demo_dm) ''npieces'') = 5"
    by (simp add: config_get_int_def demo_dm_def atoi_def isspace_def)
  have upt5: "[0 ..< 5] = [0, 1, 2, 3, 4 :: nat]"
    by (simp add: upt_rec)
  from dispatch_handshake_completed
    [where hs_dispatch = demo_hs_dispatch and mh_dispatch = demo_mh_dispatch,
     OF peer fresh hs completed send]
  obtain me1 where
    a: "mh (peer_mem me1 1) = Msghandler []"
    and b: "pwp_conn_flag_is_set (pc (peer_mem me1 1)) PC_HANDSHAKE_RECEIVED"
    and c: "trace me1 = trace (log_msg demo_dm ''send,bitfield'' [])
        @ [Cb_peer_send (nethandle (peer_mem demo_dm 1))
             (BITFIELD (map (\<lambda>i. int i \<in> pieces_completed demo_dm)
                          [0 ..< nat (config_get_int (cfg demo_dm) ''npieces'')]))]"
    and d: "bt_dm_dispatch_from_buffer demo_hs_dispatch demo_mh_dispatch demo_dm (Some 1)
              (19 # replicate 67 0 @ [0, 0, 0, 0]) =
        (if (1::int) = 0
         then and_then (bt_dm_remove_peer me1 1)
                (\<lambda>(r, me2). msghandler_phase demo_mh_dispatch me2 1 [0, 0, 0, 0])
         else msghandler_phase demo_mh_dispatch me1 1 [0, 0, 0, 0])"
    by blast
  have c': "trace me1 = [Cb_peer_send (Some 1) (BITFIELD [False, False, False, False, False])]"
    using c by (simp add: npieces upt5) (simp add: demo_dm_def demo_peer_def log_msg_def)
  have d': "bt_dm_dispatch_from_buffer demo_hs_dispatch demo_mh_dispatch demo_dm (Some 1)
              (19 # replicate 67 0 @ [0, 0, 0, 0]) = Inr (1, me1)"
    using d a by (simp add: msghandler_phase_def demo_mh_dispatch_def)
  from peer fresh hs completed a b c' d' show ?thesis by blast
qed

subsection \<open>Dispatching a PollBlock job\<close>

text \<open>The inner loop of \<open>__dispatch_job\<close> requests every MISSING block of the piece,
  lowest position first, and offers each to the connection.\<close>

lemma missing_from_first:
  "MISSING \<in> set ss \<Longrightarrow>
     missing_from n ss = (n + first_missing ss) # missing_from n (ss[first_missing ss := REQUESTED])"
  by (induction ss arbitrary: n) auto

lemma request_first_missing:
  "map (\<lambda>s. if s = MISSING then REQUESTED else s) (ss[first_missing ss := REQUESTED])
     = map (\<lambda>s. if s = MISSING then REQUESTED else s) ss"
  by (induction ss) auto

lemma missing_from_none: "MISSING \<notin> set ss \<Longrightarrow> missing_from n ss = []"
  by (induction ss arbitrary: n) auto

lemma request_none:
  "MISSING \<notin> set ss \<Longrightarrow> map (\<lambda>s. if s = MISSING then REQUESTED else s) ss = ss"
  by (induction ss) auto

lemma length_missing_from:
  "length (missing_from n ss) = length (filter (\<lambda>s. s = MISSING) ss)"
  by (induction ss arbitrary: n) auto

lemma offer_loop_requests_all_raw:
  "pdb me k = Some pce \<Longrightarrow>
   offer_loop me k peer =
     Inr (me\<lparr>pdb := (pdb me)(k \<mapsto>
                 pce\<lparr>blocks := map (\<lambda>s. if s = MISSING then REQUESTED else s) (blocks pce)\<rparr>),
             trace := trace me @
                 map (\<lambda>i. Pwp_conn_offer_block peer (block_at pce i)) (missing_from 0 (blocks pce))\<rparr>)"
proof (induction me k peer arbitrary: pce rule: offer_loop.induct)
  case (1 me k peer)
  show ?case
  proof (cases "bt_piece_is_fully_requested pce")
    case True
    then have none: "MISSING \<notin> set (blocks pce)"
      by (simp add: bt_piece_is_fully_requested_def)
    have "(pdb me)(k \<mapsto> pce) = pdb me"
      using "1.prems" by (simp add: fun_upd_idem)
    with True "1.prems" none show ?thesis
      by (subst offer_loop.simps) (simp add: missing_from_none request_none)
  next
    case False
    then have some: "MISSING \<in> set (blocks pce)"
      by (simp add: bt_piece_is_fully_requested_def)
    define pce' where "pce' = pce\<lparr>blocks := (blocks pce)[first_missing (blocks pce) := REQUESTED]\<rparr>"
    define me' where "me' = me\<lparr>pdb := (pdb me)(k \<mapsto> pce'),
        trace := trace me @ [Pwp_conn_offer_block peer (block_at pce (first_missing (blocks pce)))]\<rparr>"
    have polled: "bt_piece_poll_block_request pce = (block_at pce (first_missing (blocks pce)), pce')"
      by (simp add: bt_piece_poll_block_request_def Let_def pce'_def)
    have step: "pwp_conn_offer_block (me\<lparr>pdb := (pdb me)(k \<mapsto> snd (bt_piece_poll_block_request pce))\<rparr>)
                  peer (fst (bt_piece_poll_block_request pce)) = me'"
      by (simp add: polled pwp_conn_offer_block_def emit_def me'_def)
    have next_piece: "pdb me' k = Some pce'"
      by (simp add: me'_def)
    have unfold: "offer_loop me k peer = offer_loop me' k peer"
      using "1.prems" False by (subst offer_loop.simps) (simp add: step)
    have blk: "block_at pce' = block_at pce"
      by (intro ext) (simp add: block_at_def pce'_def)
    have blocks': "pce'\<lparr>blocks := map (\<lambda>s. if s = MISSING then REQUESTED else s) (blocks pce')\<rparr>
        = pce\<lparr>blocks := map (\<lambda>s. if s = MISSING then REQUESTED else s) (blocks pce)\<rparr>"
      by (simp add: pce'_def request_first_missing)
    have missing': "missing_from 0 (blocks pce)
        = first_missing (blocks pce) # missing_from 0 (blocks pce')"
      using missing_from_first [OF some, of 0] by (simp add: pce'_def)
    have "offer_loop me' k peer =
        Inr (me'\<lparr>pdb := (pdb me')(k \<mapsto>
                 pce'\<lparr>blocks := map (\<lambda>s. if s = MISSING then REQUESTED else s) (blocks pce')\<rparr>),
             trace := trace me' @
                 map (\<lambda>i. Pwp_conn_offer_block peer (block_at pce' i)) (missing_from 0 (blocks pce'))\<rparr>)"
      using "1.IH" [OF "1.prems" False] next_piece by (simp only: step)
    also have "me'\<lparr>pdb := (pdb me')(k \<mapsto>
                 pce'\<lparr>blocks := map (\<lambda>s. if s = MISSING then REQUESTED else s) (blocks pce')\<rparr>),
             trace := trace me' @
                 map (\<lambda>i. Pwp_conn_offer_block peer (block_at pce' i)) (missing_from 0 (blocks pce'))\<rparr>
        = me\<lparr>pdb := (pdb me)(k \<mapsto>
                 pce\<lparr>blocks := map (\<lambda>s. if s = MISSING then REQUESTED else s) (blocks pce)\<rparr>),
             trace := trace me @
                 map (\<lambda>i. Pwp_conn_offer_block peer (block_at pce i)) (missing_from 0 (blocks pce))\<rparr>"
      unfolding blocks' blk missing' by (simp add: me'_def)
    finally show ?thesis by (simp only: unfold)
  qed
qed

lemma offer_loop_requests_all:
  "pdb me k = Some pce \<Longrightarrow>
   offer_loop me k peer =
     Inr (me\<lparr>pdb := (pdb me)(k \<mapsto> fully_request pce),
             trace := trace me @ offer_events peer pce\<rparr>)"
  by (simp add: offer_loop_requests_all_raw fully_request_def offer_events_def)

lemma offer_events_are_offers: "list_all is_offer (offer_events peer pce)"
  by (simp add: offer_events_def list_all_iff)

lemma length_offer_events:
  "length (offer_events peer pce) = length (filter (\<lambda>s. s = MISSING) (blocks pce))"
  by (simp add: offer_events_def length_missing_from)

lemma filter_all: "list_all P xs \<Longrightarrow> filter P xs = xs"
  by (induction xs) auto

lemma fully_request_is_fully_requested: "bt_piece_is_fully_requested (fully_request pce)"
  by (auto simp: bt_piece_is_fully_requested_def fully_request_def)


text \<open>The three ways one round of the outer loop can go.\<close>

lemma poll_loop_first_incomplete:
  assumes sel: "pselector me = Some s"
      and polled: "poll_piece (ips me) s peer = (k, s')"
      and some: "k \<noteq> - 1"
      and piece: "pdb me k = Some pce"
      and incomplete: "\<not> bt_piece_is_complete pce"
  shows "poll_loop (Suc fuel) me peer =
     Some (Inr (me\<lparr>pdb := (pdb me)(k \<mapsto> fully_request pce),
                   pselector := Some s',
                   trace := trace me @ Ips_poll_piece peer # offer_events peer pce\<rparr>))"
proof -
  let ?me1 = "emit (me\<lparr>pselector := Some s'\<rparr>) (Ips_poll_piece peer)"
  have p1: "pdb ?me1 k = Some pce" using piece by simp
  have run: "poll_loop (Suc fuel) me peer = Some (offer_loop ?me1 k peer)"
    using sel polled some piece incomplete
    by (simp add: call_poll_piece_def)
  have same: "?me1\<lparr>pdb := (pdb ?me1)(k \<mapsto> fully_request pce),
                   trace := trace ?me1 @ offer_events peer pce\<rparr>
      = me\<lparr>pdb := (pdb me)(k \<mapsto> fully_request pce),
            pselector := Some s',
            trace := trace me @ Ips_poll_piece peer # offer_events peer pce\<rparr>"
    by (simp add: emit_def)
  show ?thesis
    unfolding run offer_loop_requests_all [OF p1] same ..
qed

lemma poll_loop_skips_complete:
  assumes "pselector me = Some s"
      and "poll_piece (ips me) s peer = (k, s')"
      and "k \<noteq> - 1"
      and "pdb me k = Some pce"
      and "bt_piece_is_complete pce"
  shows "poll_loop (Suc fuel) me peer =
     poll_loop fuel
       (me\<lparr>pselector := Some (have_piece (ips me) s' k),
           trace := trace me @ [Ips_poll_piece peer, Ips_have_piece k]\<rparr>) peer"
  using assms by (simp add: call_poll_piece_def call_have_piece_def emit_def)


text \<open>
  Claim C2, as amended. The manager enforces no ceiling on outstanding requests:
  dispatching a PollBlock job whose poll of the selector yields a piece that is not
  complete offers to the peer connection one block for every MISSING block of that
  piece, marking each REQUESTED, until the piece is fully requested, whatever
  \<open>max_pending_requests\<close> is.
\<close>

theorem dispatch_job_offers_every_missing_block:
  assumes "pselector me = Some s"
      and "poll_piece (ips me) s peer = (k, s')"
      and "k \<noteq> - 1"
      and "pdb me k = Some pce"
      and "\<not> bt_piece_is_complete pce"
  shows "\<exists>me'. dispatch_job (Suc fuel) me (BT_JOB_POLLBLOCK peer) = Some (Inr me')
     \<and> trace me' = trace me @ Ips_poll_piece peer # offer_events peer pce
     \<and> pdb me' = (pdb me)(k \<mapsto> fully_request pce)
     \<and> bt_piece_is_fully_requested (fully_request pce)
     \<and> length (filter is_offer (drop (length (trace me)) (trace me')))
          = length (filter (\<lambda>s. s = MISSING) (blocks pce))"
  using poll_loop_first_incomplete [where fuel = fuel, OF assms]
  by (simp add: dispatch_job_def fully_request_is_fully_requested
      filter_all [OF offer_events_are_offers] length_offer_events)

lemma demo_dm_first_poll:
  "pselector demo_dm = Some [0, 1]"
  "poll_piece (ips demo_dm) [0, 1] p = (0, [1])"
  "pdb demo_dm 0 = Some (demo_piece 0 [MISSING, MISSING, MISSING] [] False)"
  "\<not> bt_piece_is_complete (demo_piece 0 [MISSING, MISSING, MISSING] [] False)"
  by (simp_all add: demo_dm_def list_selector_def bt_piece_is_complete_def demo_piece_def)

lemma demo_dm_max_pending: "config_get_int (cfg demo_dm) ''max_pending_requests'' = 2"
  by (simp add: config_get_int_def demo_dm_def atoi_def isspace_def)

theorem dispatch_job_offers_every_missing_block_witness:
  "pselector demo_dm = Some [0, 1]
   \<and> poll_piece (ips demo_dm) [0, 1] 0 = (0, [1])
   \<and> pdb demo_dm 0 = Some (demo_piece 0 [MISSING, MISSING, MISSING] [] False)
   \<and> \<not> bt_piece_is_complete (demo_piece 0 [MISSING, MISSING, MISSING] [] False)
   \<and> config_get_int (cfg demo_dm) ''max_pending_requests'' = 2
   \<and> (\<exists>me'. dispatch_job 1 demo_dm (BT_JOB_POLLBLOCK 0) = Some (Inr me')
        \<and> trace me' =
            [Ips_poll_piece 0,
             Pwp_conn_offer_block 0 \<lparr>piece_idx = 0, offset = 0, len = 16384\<rparr>,
             Pwp_conn_offer_block 0 \<lparr>piece_idx = 0, offset = 16384, len = 16384\<rparr>,
             Pwp_conn_offer_block 0 \<lparr>piece_idx = 0, offset = 32768, len = 7232\<rparr>]
        \<and> pdb me' 0 = Some (demo_piece 0 [REQUESTED, REQUESTED, REQUESTED] [] False))"
proof -
  have ne: "(0::int) \<noteq> - 1" by simp
  from dispatch_job_offers_every_missing_block
    [where fuel = 0 and peer = 0,
     OF demo_dm_first_poll(1) demo_dm_first_poll(2) ne demo_dm_first_poll(3) demo_dm_first_poll(4)]
  obtain me' where
    run: "dispatch_job (Suc 0) demo_dm (BT_JOB_POLLBLOCK 0) = Some (Inr me')"
    and tr: "trace me' = trace demo_dm @ Ips_poll_piece 0 #
          offer_events 0 (demo_piece 0 [MISSING, MISSING, MISSING] [] False)"
    and db: "pdb me' = (pdb demo_dm)(0 \<mapsto>
          fully_request (demo_piece 0 [MISSING, MISSING, MISSING] [] False))"
    by blast
  have tr': "trace me' =
            [Ips_poll_piece 0,
             Pwp_conn_offer_block 0 \<lparr>piece_idx = 0, offset = 0, len = 16384\<rparr>,
             Pwp_conn_offer_block 0 \<lparr>piece_idx = 0, offset = 16384, len = 16384\<rparr>,
             Pwp_conn_offer_block 0 \<lparr>piece_idx = 0, offset = 32768, len = 7232\<rparr>]"
    using tr by (simp add: offer_events_def demo_piece_def block_at_def block_size_def)
      (simp add: demo_dm_def)
  have db': "pdb me' 0 = Some (demo_piece 0 [REQUESTED, REQUESTED, REQUESTED] [] False)"
    using db by (simp add: fully_request_def demo_piece_def)
  from run tr' db' demo_dm_first_poll(1) demo_dm_first_poll(2) [of 0] demo_dm_first_poll(3)
    demo_dm_first_poll(4) demo_dm_max_pending
  show ?thesis by simp
qed

text \<open>Claim C2 as stated fails: with \<open>max_pending_requests\<close> set to 2 and a piece of
  three MISSING blocks, one dispatch offers three blocks.\<close>

theorem dispatch_job_exceeds_max_pending_requests:
  "\<not> (\<forall>fuel peer (me :: int list bt_dm_private_t) me'.
        dispatch_job fuel me (BT_JOB_POLLBLOCK peer) = Some (Inr me') \<longrightarrow>
        int (length (filter is_offer (drop (length (trace me)) (trace me'))))
          \<le> config_get_int (cfg me) ''max_pending_requests'')"
proof
  assume ceiling: "\<forall>fuel peer (me :: int list bt_dm_private_t) me'.
        dispatch_job fuel me (BT_JOB_POLLBLOCK peer) = Some (Inr me') \<longrightarrow>
        int (length (filter is_offer (drop (length (trace me)) (trace me'))))
          \<le> config_get_int (cfg me) ''max_pending_requests''"
  have ne: "(0::int) \<noteq> - 1" by simp
  from poll_loop_first_incomplete
    [where fuel = 0 and peer = 0,
     OF demo_dm_first_poll(1) demo_dm_first_poll(2) ne demo_dm_first_poll(3) demo_dm_first_poll(4)]
  obtain me' where
    run: "poll_loop (Suc 0) demo_dm 0 = Some (Inr me')"
    and tr: "trace me' = trace demo_dm @ Ips_poll_piece 0 #
          offer_events 0 (demo_piece 0 [MISSING, MISSING, MISSING] [] False)"
    by simp
  have offers: "length (filter is_offer (drop (length (trace demo_dm)) (trace me'))) = 3"
    by (simp add: tr filter_all [OF offer_events_are_offers] length_offer_events demo_piece_def)
  from run have "dispatch_job (Suc 0) demo_dm (BT_JOB_POLLBLOCK 0) = Some (Inr me')"
    by (simp add: dispatch_job_def)
  with ceiling have "int (length (filter is_offer (drop (length (trace demo_dm)) (trace me'))))
          \<le> config_get_int (cfg demo_dm) ''max_pending_requests''"
    by blast
  with offers show False
    by (simp add: demo_dm_max_pending)
qed

subsection \<open>The periodic step and the job queue\<close>
























end
